theory Spec2Isabelle
  imports Complex_Main "HOL-Library.Word"
begin

section \<open>Host engine objects used by the render passes\<close>

text \<open>
  The three render passes (FocalGuiding, GuidedRayViz, MyTestPass) are adapters over a host
  engine. Every host object that the passes hold through a \<^verbatim>\<open>ref<T>\<close> is modelled as a value
  carrying the identity (\<open>handle\<close>) that the device gave it at creation; a null \<^verbatim>\<open>ref<T>\<close> is
  \<open>None\<close>. The host side that the passes act on (allocation counter, command and log stream,
  inter-pass dictionary, whether \<^verbatim>\<open>FALCOR_ASSERT\<close> is compiled in) is the record \<open>Host\<close>, which
  every operation takes and returns. C++ \<^verbatim>\<open>float\<close> values are carried as the real number that
  the literal or the host supplied; no floating-point arithmetic is performed by the passes.
\<close>

type_synonym handle = nat
type_synonym uint = "32 word"
type_synonym float3 = "real \<times> real \<times> real"
type_synonym float4 = "real \<times> real \<times> real \<times> real"
type_synonym DefineList = "string \<rightharpoonup> string"

datatype GeometryType = TriangleMesh | Custom | OtherGeometryType nat

datatype UpdateFlags = GeometryChanged | OtherUpdate nat

datatype ResourceFormat = Unknown | RGBA32Float

datatype ResourceBindFlags = ShaderResource | UnorderedAccess

datatype MemoryType = DeviceLocal

datatype FillMode = Wireframe | Solid

datatype CullMode = CullNone | CullFront | CullBack

text \<open>
  The scene is owned and mutated by the host; a pass keeps a reference and reads the scene
  through it at the time of each call. The record lists what the passes query.
\<close>

record Scene =
  getUpdates :: "UpdateFlags set"
  useEmissiveLights :: bool
  getApertureRadius :: real
  sceneBoundsMin :: float3
  sceneBoundsMax :: float3
  geometryTypes :: "GeometryType set"
  getGeometryIDs :: "GeometryType \<Rightarrow> nat list"
  getGeometryCount :: uint
  getShaderModules :: "string list"
  getSceneDefines :: DefineList
  getTypeConformances :: "string list"
  getRaytracingMaxAttributeSize :: uint

definition hasGeometryType :: "Scene \<Rightarrow> GeometryType \<Rightarrow> bool" where
  "hasGeometryType sc t = (t \<in> geometryTypes sc)"

definition is_set :: "UpdateFlags set \<Rightarrow> UpdateFlags \<Rightarrow> bool" where
  "is_set flags f = (f \<in> flags)"

subsection \<open>Density grid and ray line records\<close>

text \<open>
  Modelled from the spec: the declaration of \<^verbatim>\<open>DensityNode\<close> is not among the sources. A node
  has 8 children, each with a child index, a placeholder float and a density weight; the
  brace initialiser in \<^verbatim>\<open>prepareVars\<close> gives the fields in that order.
\<close>

record DensityChild =
  index :: uint
  placeholder :: real
  density :: real

record DensityNode =
  childs :: "DensityChild list"

text \<open>
  Modelled from the spec: \<^verbatim>\<open>GuidedRayLine.h\<close> is not among the sources. A line record holds
  two endpoint positions and a colour, the members that \<^verbatim>\<open>generateRaysGeometry\<close> reads.
\<close>

record GuidedRayLine =
  pos1 :: float3
  pos2 :: float3
  color :: float3

datatype BufferData = DensityNodes "DensityNode list" | GuidedRayLines "GuidedRayLine list"

record Buffer =
  buf_id :: handle
  buf_elementCount :: uint
  buf_bindFlags :: "ResourceBindFlags set"
  buf_memoryType :: MemoryType
  buf_data :: BufferData

subsection \<open>Programs, binding tables and program variables\<close>

datatype EntryPoint =
    RayGen string
  | Miss string
  | HitGroup string string
  | VertexShader string
  | PixelShader string

record ProgramDesc =
  shaderModules :: "string list"
  shaderLibraries :: "string list"
  entryPoints :: "EntryPoint list"
  maxPayloadSize :: uint
  maxAttributeSize :: uint
  maxTraceRecursionDepth :: uint

definition emptyProgramDesc :: ProgramDesc where
  "emptyProgramDesc =
     \<lparr>shaderModules = [], shaderLibraries = [], entryPoints = [],
      maxPayloadSize = 0, maxAttributeSize = 0, maxTraceRecursionDepth = 0\<rparr>"

text \<open>\<^verbatim>\<open>desc.addRayGen\<close>, \<^verbatim>\<open>addMiss\<close> and \<^verbatim>\<open>addHitGroup\<close> append an entry point and return its index.\<close>

definition addEntryPoint :: "EntryPoint \<Rightarrow> ProgramDesc \<Rightarrow> nat \<times> ProgramDesc" where
  "addEntryPoint e d = (length (entryPoints d), d\<lparr>entryPoints := entryPoints d @ [e]\<rparr>)"

record Program =
  prog_id :: handle
  prog_desc :: ProgramDesc
  prog_defines :: DefineList
  prog_typeConformances :: "string list"

text \<open>\<^verbatim>\<open>Program::addDefines\<close>: every entry of the added list is set, replacing an earlier value.\<close>

definition addDefines :: "DefineList \<Rightarrow> Program \<Rightarrow> Program" where
  "addDefines dl g = g\<lparr>prog_defines := prog_defines g ++ dl\<rparr>"

definition setTypeConformances :: "string list \<Rightarrow> Program \<Rightarrow> Program" where
  "setTypeConformances tc g = g\<lparr>prog_typeConformances := tc\<rparr>"

record RtBindingTable =
  sbt_id :: handle
  sbt_missCount :: nat
  sbt_rayTypeCount :: nat
  sbt_geometryCount :: uint
  sbt_rayGen :: "nat option"
  sbt_miss :: "nat \<rightharpoonup> nat"
  sbt_hitGroups :: "(nat \<times> nat list \<times> nat) list"

datatype ShaderValue =
    UintValue uint
  | Float3Value float3
  | Float4Value float4
  | TextureValue "handle option"
  | BufferValue "Buffer option"

text \<open>
  A program-variables object remembers the program (and, for ray tracing, the binding table)
  it was created for, and holds the values written through its root variable.
\<close>

record ProgramVars =
  vars_id :: handle
  vars_program :: handle
  vars_bindingTable :: "handle option"
  vars_values :: "string list \<rightharpoonup> ShaderValue"

definition setVar :: "string list \<Rightarrow> ShaderValue \<Rightarrow> ProgramVars \<Rightarrow> ProgramVars" where
  "setVar path v vars = vars\<lparr>vars_values := (vars_values vars)(path \<mapsto> v)\<rparr>"

record RasterizerState =
  rs_id :: handle
  rs_fillMode :: FillMode
  rs_cullMode :: CullMode

record Fbo =
  fbo_id :: handle
  fbo_colorTargets :: "handle option list"

record GraphicsState =
  gs_id :: handle
  gs_program :: "handle option"
  gs_rasterizerState :: "handle option"
  gs_fbo :: "Fbo option"

subsection \<open>Render graph data\<close>

record ChannelDesc =
  name :: string
  texname :: string
  desc :: string
  optional :: bool
  format :: ResourceFormat

record ReflectionField =
  field_name :: string
  field_desc :: string
  field_optional :: bool
  field_format :: ResourceFormat

record RenderPassReflection =
  inputs :: "ReflectionField list"
  outputs :: "ReflectionField list"

definition channelField :: "ChannelDesc \<Rightarrow> ReflectionField" where
  "channelField c =
     \<lparr>field_name = name c, field_desc = desc c, field_optional = optional c,
      field_format = format c\<rparr>"

definition addRenderPassInputs :: "ChannelDesc list \<Rightarrow> RenderPassReflection \<Rightarrow> RenderPassReflection" where
  "addRenderPassInputs cs r = r\<lparr>inputs := inputs r @ map channelField cs\<rparr>"

definition addRenderPassOutputs :: "ChannelDesc list \<Rightarrow> RenderPassReflection \<Rightarrow> RenderPassReflection" where
  "addRenderPassOutputs cs r = r\<lparr>outputs := outputs r @ map channelField cs\<rparr>"

definition addOutput :: "string \<Rightarrow> string \<Rightarrow> RenderPassReflection \<Rightarrow> RenderPassReflection" where
  "addOutput n d r =
     r\<lparr>outputs := outputs r @
        [\<lparr>field_name = n, field_desc = d, field_optional = False, field_format = Unknown\<rparr>]\<rparr>"

text \<open>
  Per-frame data handed to \<^verbatim>\<open>execute\<close>: the texture connected to each channel name (\<open>None\<close>
  is a null texture) and the default texture dimensions of the frame.
\<close>

record RenderData =
  getTexture :: "string \<rightharpoonup> handle"
  getDefaultTextureDims :: "uint \<times> uint"

datatype DictValue = UintEntry uint | BoolEntry bool | BufferEntry "Buffer option"

subsection \<open>Commands, log and errors\<close>

datatype PrintfArg = UintArg uint | FloatArg real

datatype Event =
    ClearTexture handle
  | ClearFbo Fbo float4 real nat
  | LogWarning string "string list"
  | GetLightCollection handle
  | Raytrace handle Program ProgramVars "uint \<times> uint \<times> uint"
  | Rasterize handle GraphicsState ProgramVars "RasterizerState option" "RasterizerState option"
  | Printf string "PrintfArg list"

datatype Error =
    RuntimeError string
  | AssertionFailed string
  | NullDereference string
  | BadAnyCast string
  | OutOfRange string

record Host =
  nextHandle :: handle
  events :: "Event list"
  dictionary :: "string \<rightharpoonup> DictValue"
  assertsEnabled :: bool

type_synonym 'p Result = "(Error \<times> Host \<times> 'p) + (Host \<times> 'p)"

definition emit :: "Event \<Rightarrow> Host \<Rightarrow> Host" where
  "emit e h = h\<lparr>events := events h @ [e]\<rparr>"

definition alloc :: "Host \<Rightarrow> handle \<times> Host" where
  "alloc h = (nextHandle h, h\<lparr>nextHandle := Suc (nextHandle h)\<rparr>)"

text \<open>
  \<^verbatim>\<open>FALCOR_ASSERT(c)\<close>: the macro is defined by the host. It stops the call when the condition is
  false and assertions are compiled in, and is empty otherwise.
\<close>

definition assertFails :: "Host \<Rightarrow> bool \<Rightarrow> bool" where
  "assertFails h c = (assertsEnabled h \<and> \<not> c)"

section \<open>FocalGuiding: the ray-tracing pass\<close>

definition FocalGuiding_kShaderFile :: string where
  "FocalGuiding_kShaderFile = ''RenderPasses/FocalGuiding/FocalGuiding.rt.slang''"

definition kMaxPayloadSizeBytes :: uint where
  "kMaxPayloadSizeBytes = 72"

definition kMaxRecursionDepth :: uint where
  "kMaxRecursionDepth = 2"

definition kInputViewDir :: string where
  "kInputViewDir = ''viewW''"

definition kInputChannels :: "ChannelDesc list" where
  "kInputChannels =
     [\<lparr>name = ''vbuffer'', texname = ''gVBuffer'',
       desc = ''Visibility buffer in packed format'', optional = False, format = Unknown\<rparr>,
      \<lparr>name = kInputViewDir, texname = ''gViewW'',
       desc = ''World-space view direction (xyz float format)'', optional = True,
       format = Unknown\<rparr>]"

definition kOutputChannels :: "ChannelDesc list" where
  "kOutputChannels =
     [\<lparr>name = ''color'', texname = ''gOutputColor'',
       desc = ''Output color (sum of direct and indirect)'', optional = False,
       format = RGBA32Float\<rparr>]"

record Tracer =
  pProgram :: "Program option"
  pBindingTable :: "RtBindingTable option"
  pVars :: "ProgramVars option"

record FocalGuiding =
  mpScene :: "handle option"
  mTracer :: Tracer
  mNodes :: "Buffer option"
  mNodesSize :: uint

text \<open>
  The constructor only passes the device on; every reference member starts null. The default
  of \<^verbatim>\<open>mNodesSize\<close> is given in a header that is not among the sources, so it is a parameter.
\<close>

definition FocalGuiding_construct :: "uint \<Rightarrow> FocalGuiding" where
  "FocalGuiding_construct nodesSize =
     \<lparr>mpScene = None,
      mTracer = \<lparr>pProgram = None, pBindingTable = None, pVars = None\<rparr>,
      mNodes = None,
      mNodesSize = nodesSize\<rparr>"

definition FocalGuiding_reflect :: RenderPassReflection where
  "FocalGuiding_reflect =
     addRenderPassOutputs kOutputChannels
       (addRenderPassInputs kInputChannels \<lparr>inputs = [], outputs = []\<rparr>)"

text \<open>
  Modelled from the spec: \<^verbatim>\<open>getValidResourceDefines\<close> (RenderPassHelpers.h) is not among the
  sources. For each channel with a shader-side name it sets the define \<^verbatim>\<open>is_valid_<name>\<close>,
  telling the program whether the resource is connected in this frame.
\<close>

definition getValidResourceDefines :: "ChannelDesc list \<Rightarrow> RenderData \<Rightarrow> DefineList" where
  "getValidResourceDefines cs rd =
     foldl (\<lambda>m c. if texname c = [] then m
                   else m(''is_valid_'' @ texname c \<mapsto>
                          (if getTexture rd (name c) = None then ''0'' else ''1'')))
       Map.empty cs"

text \<open>The loop of \<^verbatim>\<open>execute\<close> over the output channels when there is no scene.\<close>

fun clearOutputs :: "ChannelDesc list \<Rightarrow> RenderData \<Rightarrow> Host \<Rightarrow> Host" where
  "clearOutputs [] rd h = h"
| "clearOutputs (it # its) rd h =
     (case getTexture rd (name it) of
        None \<Rightarrow> clearOutputs its rd h
      | Some pDst \<Rightarrow> clearOutputs its rd (emit (ClearTexture pDst) h))"

text \<open>The \<^verbatim>\<open>bind\<close> lambda of \<^verbatim>\<open>execute\<close>, and the two loops that apply it.\<close>

definition bindChannel :: "RenderData \<Rightarrow> ChannelDesc \<Rightarrow> ProgramVars \<Rightarrow> ProgramVars" where
  "bindChannel rd c vars =
     (if texname c \<noteq> [] then setVar [texname c] (TextureValue (getTexture rd (name c))) vars
      else vars)"

fun bindChannels :: "RenderData \<Rightarrow> ChannelDesc list \<Rightarrow> ProgramVars \<Rightarrow> ProgramVars" where
  "bindChannels rd [] vars = vars"
| "bindChannels rd (c # cs) vars = bindChannels rd cs (bindChannel rd c vars)"

text \<open>The local array \<^verbatim>\<open>initDensities\<close> of \<^verbatim>\<open>prepareVars\<close>.\<close>

definition initDensities :: "DensityNode list" where
  "initDensities =
     [\<lparr>childs =
        [\<lparr>index = 0, placeholder = 0.0, density = 0.5\<rparr>,
         \<lparr>index = 0, placeholder = 0.0, density = 0.9\<rparr>,
         \<lparr>index = 0, placeholder = 0.0, density = 0.5\<rparr>,
         \<lparr>index = 0, placeholder = 0.0, density = 0.9\<rparr>,
         \<lparr>index = 0, placeholder = 0.0, density = 0.5\<rparr>,
         \<lparr>index = 0, placeholder = 0.0, density = 0.9\<rparr>,
         \<lparr>index = 0, placeholder = 0.0, density = 0.5\<rparr>,
         \<lparr>index = 0, placeholder = 0.0, density = 1.0\<rparr>]\<rparr>]"

text \<open>
  \<^verbatim>\<open>createStructuredBuffer\<close>: a new buffer of the given element count, created with the given
  initial data.
\<close>

definition createStructuredBuffer ::
  "uint \<Rightarrow> ResourceBindFlags set \<Rightarrow> MemoryType \<Rightarrow> BufferData \<Rightarrow> Host \<Rightarrow> Buffer \<times> Host" where
  "createStructuredBuffer n flags mt init h =
     (let (i, h') = alloc h
      in (\<lparr>buf_id = i, buf_elementCount = n, buf_bindFlags = flags, buf_memoryType = mt,
           buf_data = init\<rparr>, h'))"

definition FocalGuiding_prepareVars ::
  "(handle \<Rightarrow> Scene) \<Rightarrow> Host \<times> FocalGuiding \<Rightarrow> FocalGuiding Result" where
  "FocalGuiding_prepareVars scn hp =
     (case hp of (h, p) \<Rightarrow>
        if assertFails h (mpScene p \<noteq> None) then Inl (AssertionFailed ''mpScene'', h, p)
        else if assertFails h (pProgram (mTracer p) \<noteq> None)
          then Inl (AssertionFailed ''mTracer.pProgram'', h, p)
        else
          (case pProgram (mTracer p) of
             None \<Rightarrow> Inl (NullDereference ''mTracer.pProgram'', h, p)
           | Some g \<Rightarrow>
             (case mpScene p of
                None \<Rightarrow> Inl (NullDereference ''mpScene'', h, p)
              | Some s \<Rightarrow>
                  let g' = setTypeConformances (getTypeConformances (scn s)) g;
                      (vid, h1) = alloc h;
                      vars = \<lparr>vars_id = vid, vars_program = prog_id g',
                              vars_bindingTable = map_option sbt_id (pBindingTable (mTracer p)),
                              vars_values = Map.empty\<rparr>;
                      bindFlags = {ShaderResource, UnorderedAccess};
                      memoryType = DeviceLocal;
                      (nodes, h2) =
                        createStructuredBuffer (mNodesSize p) bindFlags memoryType
                          (DensityNodes initDensities) h1
                  in Inr (h2, p\<lparr>mTracer := (mTracer p)\<lparr>pProgram := Some g', pVars := Some vars\<rparr>,
                                mNodes := Some nodes\<rparr>))))"

definition FocalGuiding_execute ::
  "(handle \<Rightarrow> Scene) \<Rightarrow> RenderData \<Rightarrow> Host \<times> FocalGuiding \<Rightarrow> FocalGuiding Result" where
  "FocalGuiding_execute scn rd hp =
     (case hp of (h, p) \<Rightarrow>
        (case mpScene p of
           None \<Rightarrow> Inr (clearOutputs kOutputChannels rd h, p)
         | Some s \<Rightarrow>
             if is_set (getUpdates (scn s)) GeometryChanged
             then Inl (RuntimeError
                    ''DirectRayTracer: This render pass does not support scene geometry changes.'',
                    h, p)
             else
               let h1 = (if useEmissiveLights (scn s) then emit (GetLightCollection s) h else h);
                   useDOF = (getApertureRadius (scn s) > 0);
                   h2 = (if useDOF \<and> getTexture rd kInputViewDir = None
                         then emit (LogWarning
                                ''Depth-of-field requires the '{}' input. Expect incorrect shading.''
                                [kInputViewDir]) h1
                         else h1)
               in
               (case pProgram (mTracer p) of
                  None \<Rightarrow> Inl (NullDereference ''mTracer.pProgram'', h2, p)
                | Some g \<Rightarrow>
                    let g1 = addDefines (getValidResourceDefines kInputChannels rd) g;
                        g2 = addDefines (getValidResourceDefines kOutputChannels rd) g1;
                        p1 = p\<lparr>mTracer := (mTracer p)\<lparr>pProgram := Some g2\<rparr>\<rparr>
                    in
                    (case (if pVars (mTracer p1) = None then FocalGuiding_prepareVars scn (h2, p1)
                           else Inr (h2, p1)) of
                       Inl e \<Rightarrow> Inl e
                     | Inr (h3, p3) \<Rightarrow>
                         if assertFails h3 (pVars (mTracer p3) \<noteq> None)
                         then Inl (AssertionFailed ''mTracer.pVars'', h3, p3)
                         else
                           (case pVars (mTracer p3) of
                              None \<Rightarrow> Inl (NullDereference ''mTracer.pVars'', h3, p3)
                            | Some v0 \<Rightarrow>
                                let v1 = setVar [''CB'', ''gNodesSize''] (UintValue (mNodesSize p3)) v0;
                                    v2 = setVar [''CB'', ''gSceneBoundsMin'']
                                           (Float3Value (sceneBoundsMin (scn s))) v1;
                                    v3 = setVar [''CB'', ''gSceneBoundsMax'']
                                           (Float3Value (sceneBoundsMax (scn s))) v2;
                                    h4 = h3\<lparr>dictionary :=
                                            (dictionary h3)(''gNodes'' \<mapsto> BufferEntry (mNodes p3))\<rparr>;
                                    v4 = bindChannels rd kInputChannels v3;
                                    v5 = bindChannels rd kOutputChannels v4;
                                    v6 = setVar [''gNodes''] (BufferValue (mNodes p3)) v5;
                                    p4 = p3\<lparr>mTracer := (mTracer p3)\<lparr>pVars := Some v6\<rparr>\<rparr>;
                                    targetDim = getDefaultTextureDims rd
                                in
                                if assertFails h4 (fst targetDim > 0 \<and> snd targetDim > 0)
                                then Inl (AssertionFailed ''targetDim.x > 0 && targetDim.y > 0'',
                                          h4, p4)
                                else
                                  (case pProgram (mTracer p4) of
                                     None \<Rightarrow> Inl (NullDereference ''mTracer.pProgram'', h4, p4)
                                   | Some g3 \<Rightarrow>
                                       Inr (emit (Raytrace s g3 v6
                                                   (fst targetDim, snd targetDim, 1)) h4,
                                            p4)))))))"

definition RtBindingTable_create :: "nat \<Rightarrow> nat \<Rightarrow> uint \<Rightarrow> Host \<Rightarrow> RtBindingTable \<times> Host" where
  "RtBindingTable_create missCount rayTypeCount geometryCount h =
     (let (i, h') = alloc h
      in (\<lparr>sbt_id = i, sbt_missCount = missCount, sbt_rayTypeCount = rayTypeCount,
           sbt_geometryCount = geometryCount, sbt_rayGen = None, sbt_miss = Map.empty,
           sbt_hitGroups = []\<rparr>, h'))"

definition setRayGen :: "nat \<Rightarrow> RtBindingTable \<Rightarrow> RtBindingTable" where
  "setRayGen e t = t\<lparr>sbt_rayGen := Some e\<rparr>"

definition setMiss :: "nat \<Rightarrow> nat \<Rightarrow> RtBindingTable \<Rightarrow> RtBindingTable" where
  "setMiss i e t = t\<lparr>sbt_miss := (sbt_miss t)(i \<mapsto> e)\<rparr>"

definition setHitGroup :: "nat \<Rightarrow> nat list \<Rightarrow> nat \<Rightarrow> RtBindingTable \<Rightarrow> RtBindingTable" where
  "setHitGroup rayType ids e t = t\<lparr>sbt_hitGroups := sbt_hitGroups t @ [(rayType, ids, e)]\<rparr>"

definition Program_create :: "ProgramDesc \<Rightarrow> DefineList \<Rightarrow> Host \<Rightarrow> Program \<times> Host" where
  "Program_create d defs h =
     (let (i, h') = alloc h
      in (\<lparr>prog_id = i, prog_desc = d, prog_defines = defs, prog_typeConformances = []\<rparr>, h'))"

definition FocalGuiding_setScene ::
  "(handle \<Rightarrow> Scene) \<Rightarrow> handle option \<Rightarrow> Host \<times> FocalGuiding \<Rightarrow> Host \<times> FocalGuiding" where
  "FocalGuiding_setScene scn pScene hp =
     (case hp of (h, p) \<Rightarrow>
        let p1 = p\<lparr>mTracer := (mTracer p)\<lparr>pProgram := None\<rparr>\<rparr>;
            p2 = p1\<lparr>mTracer := (mTracer p1)\<lparr>pBindingTable := None\<rparr>\<rparr>;
            p3 = p2\<lparr>mTracer := (mTracer p2)\<lparr>pVars := None\<rparr>\<rparr>;
            p4 = p3\<lparr>mpScene := pScene\<rparr>
        in
        (case mpScene p4 of
           None \<Rightarrow> (h, p4)
         | Some s \<Rightarrow>
             let sc = scn s;
                 h1 = (if hasGeometryType sc Custom
                       then emit (LogWarning
                              ''DirectRayTracer: This render pass does not support custom primitives.''
                              []) h
                       else h);
                 d1 = emptyProgramDesc\<lparr>shaderModules := getShaderModules sc\<rparr>;
                 d2 = d1\<lparr>shaderLibraries := shaderLibraries d1 @ [FocalGuiding_kShaderFile]\<rparr>;
                 d3 = d2\<lparr>maxPayloadSize := kMaxPayloadSizeBytes\<rparr>;
                 d4 = d3\<lparr>maxAttributeSize := getRaytracingMaxAttributeSize sc\<rparr>;
                 d5 = d4\<lparr>maxTraceRecursionDepth := kMaxRecursionDepth\<rparr>;
                 (sbt0, h2) = RtBindingTable_create 2 2 (getGeometryCount sc) h1;
                 (rg, d6) = addEntryPoint (RayGen ''rayGen'') d5;
                 sbt1 = setRayGen rg sbt0;
                 (m0, d7) = addEntryPoint (Miss ''scatterMiss'') d6;
                 sbt2 = setMiss 0 m0 sbt1;
                 (m1, d8) = addEntryPoint (Miss ''shadowMiss'') d7;
                 sbt3 = setMiss 1 m1 sbt2;
                 (sbt5, d11) =
                   (if hasGeometryType sc TriangleMesh
                    then
                      let (hg0, d9) = addEntryPoint
                            (HitGroup ''scatterTriangleMeshClosestHit'' ''scatterTriangleMeshAnyHit'')
                            d8;
                          sbt4 = setHitGroup 0 (getGeometryIDs sc TriangleMesh) hg0 sbt3;
                          (hg1, d10) = addEntryPoint (HitGroup [] ''shadowTriangleMeshAnyHit'') d9
                      in (setHitGroup 1 (getGeometryIDs sc TriangleMesh) hg1 sbt4, d10)
                    else (sbt3, d8));
                 (prog, h3) = Program_create d11 (getSceneDefines sc) h2
             in (h3, p4\<lparr>mTracer := (mTracer p4)\<lparr>pBindingTable := Some sbt5,
                                                  pProgram := Some prog\<rparr>\<rparr>)))"

section \<open>Host calls shared by the two raster passes\<close>

definition Program_createGraphics :: "string \<Rightarrow> string \<Rightarrow> string \<Rightarrow> Host \<Rightarrow> Program \<times> Host" where
  "Program_createGraphics file vs ps h =
     (let (i, h') = alloc h
      in (\<lparr>prog_id = i,
           prog_desc = emptyProgramDesc\<lparr>shaderLibraries := [file],
                                        entryPoints := [VertexShader vs, PixelShader ps]\<rparr>,
           prog_defines = Map.empty, prog_typeConformances = []\<rparr>, h'))"

definition RasterizerState_create :: "FillMode \<Rightarrow> CullMode \<Rightarrow> Host \<Rightarrow> RasterizerState \<times> Host" where
  "RasterizerState_create fm cm h =
     (let (i, h') = alloc h in (\<lparr>rs_id = i, rs_fillMode = fm, rs_cullMode = cm\<rparr>, h'))"

definition GraphicsState_create :: "Host \<Rightarrow> GraphicsState \<times> Host" where
  "GraphicsState_create h =
     (let (i, h') = alloc h
      in (\<lparr>gs_id = i, gs_program = None, gs_rasterizerState = None, gs_fbo = None\<rparr>, h'))"

definition Fbo_create :: "handle option list \<Rightarrow> Host \<Rightarrow> Fbo \<times> Host" where
  "Fbo_create colors h =
     (let (i, h') = alloc h in (\<lparr>fbo_id = i, fbo_colorTargets = colors\<rparr>, h'))"

text \<open>\<^verbatim>\<open>ProgramVars::create(mpDevice, mpProgram->getReflector())\<close>: variables for the given program.\<close>

definition ProgramVars_create :: "Program \<Rightarrow> Host \<Rightarrow> ProgramVars \<times> Host" where
  "ProgramVars_create g h =
     (let (i, h') = alloc h
      in (\<lparr>vars_id = i, vars_program = prog_id g, vars_bindingTable = None,
           vars_values = Map.empty\<rparr>, h'))"

text \<open>
  Reading an entry of the inter-pass dictionary converts the untyped stored value to the type
  of the member it is assigned to. The conversion is host code; it throws when the entry is
  absent or holds a value of another type.
\<close>

definition dictUint :: "Host \<Rightarrow> string \<Rightarrow> Error + uint" where
  "dictUint h k = (case dictionary h k of Some (UintEntry n) \<Rightarrow> Inr n | _ \<Rightarrow> Inl (BadAnyCast k))"

definition dictBuffer :: "Host \<Rightarrow> string \<Rightarrow> Error + Buffer option" where
  "dictBuffer h k = (case dictionary h k of Some (BufferEntry b) \<Rightarrow> Inr b | _ \<Rightarrow> Inl (BadAnyCast k))"

definition dictBool :: "Host \<Rightarrow> string \<Rightarrow> Error + bool" where
  "dictBool h k = (case dictionary h k of Some (BoolEntry b) \<Rightarrow> Inr b | _ \<Rightarrow> Inl (BadAnyCast k))"

text \<open>
  Modelled from the spec: \<^verbatim>\<open>Buffer::getElements\<close> is host code that is not among the sources.
  It decodes \<open>count\<close> fixed-size line records starting at record \<open>first\<close>; a range that the
  buffer does not hold, or a buffer of other records, is a fault.
\<close>

definition getElements :: "Buffer \<Rightarrow> nat \<Rightarrow> nat \<Rightarrow> Error + GuidedRayLine list" where
  "getElements b first count =
     (case buf_data b of
        GuidedRayLines ls \<Rightarrow>
          if first + count \<le> length ls then Inr (take count (drop first ls))
          else Inl (OutOfRange ''getElements'')
      | DensityNodes ns \<Rightarrow> Inl (OutOfRange ''getElements''))"

section \<open>GuidedRayViz: the ray visualisation pass\<close>

definition GuidedRayViz_kShaderFile :: string where
  "GuidedRayViz_kShaderFile = ''RenderPasses/FocalGuiding/GuidedRayViz.slang''"

record GuidedRayViz =
  mGuidedRaysSize :: uint
  mGuidedRays :: "Buffer option"
  mComputeRays :: bool
  mpScene :: "handle option"
  mpRayScene :: "handle option"
  mpProgram :: "Program option"
  mpGraphicsState :: "GraphicsState option"
  mpRasterState :: "RasterizerState option"
  mpVars :: "ProgramVars option"

definition GuidedRayViz_construct :: "Host \<Rightarrow> Host \<times> GuidedRayViz" where
  "GuidedRayViz_construct h =
     (let (prog, h1) = Program_createGraphics GuidedRayViz_kShaderFile ''vsMain'' ''psMain'' h;
          (rs, h2) = RasterizerState_create Wireframe CullNone h1;
          (gs0, h3) = GraphicsState_create h2;
          gs1 = gs0\<lparr>gs_program := Some (prog_id prog)\<rparr>;
          gs2 = gs1\<lparr>gs_rasterizerState := Some (rs_id rs)\<rparr>
      in (h3, \<lparr>mGuidedRaysSize = 10, mGuidedRays = None, mComputeRays = True,
               mpScene = None, mpRayScene = None, mpProgram = Some prog,
               mpGraphicsState = Some gs2, mpRasterState = Some rs, mpVars = None\<rparr>))"

definition GuidedRayViz_reflect :: RenderPassReflection where
  "GuidedRayViz_reflect = addOutput ''output'' ''linesColor'' \<lparr>inputs = [], outputs = []\<rparr>"

text \<open>The body of the loop of \<^verbatim>\<open>generateRaysGeometry\<close>: four \<^verbatim>\<open>printf\<close> calls per record.\<close>

definition printRayIndex :: "uint \<Rightarrow> Host \<Rightarrow> Host" where
  "printRayIndex i h = emit (Printf (''ray: %d'' @ [CHR 0x0A]) [UintArg i]) h"

definition printRayLine :: "GuidedRayLine \<Rightarrow> Host \<Rightarrow> Host" where
  "printRayLine rayLine h =
     (let h1 = emit (Printf (''pos1: %f, %f, %f'' @ [CHR 0x0A])
                  [FloatArg (fst (pos1 rayLine)), FloatArg (fst (snd (pos1 rayLine))),
                   FloatArg (snd (snd (pos1 rayLine)))]) h;
          h2 = emit (Printf (''pos2: %f, %f, %f'' @ [CHR 0x0A])
                  [FloatArg (fst (pos2 rayLine)), FloatArg (fst (snd (pos2 rayLine))),
                   FloatArg (snd (snd (pos2 rayLine)))]) h1
      in emit (Printf (''color: %f, %f, %f'' @ [CHR 0x0A])
                  [FloatArg (fst (color rayLine)), FloatArg (fst (snd (color rayLine))),
                   FloatArg (snd (snd (color rayLine)))]) h2)"

text \<open>
  The \<^verbatim>\<open>for (uint i = 0; i < mGuidedRaysSize; ++i)\<close> loop, with the 32-bit counter of the
  source. Indexing the vector beyond its length is undefined in C++ and is a fault here.
\<close>

function generateRaysLoop ::
  "GuidedRayLine list \<Rightarrow> uint \<Rightarrow> uint \<Rightarrow> Host \<Rightarrow> (Error \<times> Host) + Host" where
  "generateRaysLoop rayNodes n i h =
     (if i < n then
        (if unat i < length rayNodes
         then generateRaysLoop rayNodes n (i + 1)
                (printRayLine (rayNodes ! unat i) (printRayIndex i h))
         else Inl (OutOfRange ''rayNodes'', printRayIndex i h))
      else Inr h)"
  by pat_completeness auto
termination
proof (relation "measure (\<lambda>(rayNodes, n, i, h). unat n - unat i)")
  show "wf (measure (\<lambda>(rayNodes, n, i, h). unat n - unat i))"
    by simp
next
  fix rayNodes :: "GuidedRayLine list" and n i :: uint and h :: Host
  assume less: "i < n"
  have "1 + i \<noteq> 0"
  proof
    assume "1 + i = 0"
    then have "i = - 1" by (simp add: add_eq_0_iff)
    with less show False by simp
  qed
  then have "unat (i + 1) = Suc (unat i)"
    using unatSuc [of i] by (simp add: add.commute)
  moreover from less have "unat i < unat n"
    by (simp add: word_less_nat_alt)
  ultimately show
    "((rayNodes, n, i + 1, printRayLine (rayNodes ! unat i) (printRayIndex i h)),
      (rayNodes, n, i, h)) \<in> measure (\<lambda>(rayNodes, n, i, h). unat n - unat i)"
    by simp
qed

text \<open>The loop equation is applied by hand, one iteration at a time.\<close>

declare generateRaysLoop.simps [simp del]

definition generateRaysGeometry :: "Host \<times> GuidedRayViz \<Rightarrow> GuidedRayViz Result" where
  "generateRaysGeometry hp =
     (case hp of (h, p) \<Rightarrow>
        (case GuidedRayViz.mGuidedRays p of
           None \<Rightarrow> Inl (NullDereference ''mGuidedRays'', h, p)
         | Some b \<Rightarrow>
             (case getElements b 0 (unat (GuidedRayViz.mGuidedRaysSize p)) of
                Inl e \<Rightarrow> Inl (e, h, p)
              | Inr rayNodes \<Rightarrow>
                  (case generateRaysLoop rayNodes (GuidedRayViz.mGuidedRaysSize p) 0 h of
                     Inl (e, h') \<Rightarrow> Inl (e, h', p)
                   | Inr h' \<Rightarrow> Inr (h', p)))))"

definition GuidedRayViz_draw ::
  "RenderData \<Rightarrow> Host \<times> GuidedRayViz \<Rightarrow> GuidedRayViz Result" where
  "GuidedRayViz_draw rd hp =
     (case hp of (h, p) \<Rightarrow>
        let (pTargetFbo, h1) = Fbo_create [getTexture rd ''output''] h;
            clearColor = (0, 0, 0, 1);
            h2 = emit (ClearFbo pTargetFbo clearColor 1.0 0) h1
        in
        (case GuidedRayViz.mpGraphicsState p of
           None \<Rightarrow> Inl (NullDereference ''mpGraphicsState'', h2, p)
         | Some gs \<Rightarrow>
             let gs' = gs\<lparr>gs_fbo := Some pTargetFbo\<rparr>;
                 p1 = p\<lparr>GuidedRayViz.mpGraphicsState := Some gs'\<rparr>
             in
             (case GuidedRayViz.mpScene p1 of
                None \<Rightarrow> Inr (h2, p1)
              | Some s \<Rightarrow>
                  (case GuidedRayViz.mpVars p1 of
                     None \<Rightarrow> Inl (NullDereference ''mpVars'', h2, p1)
                   | Some v \<Rightarrow>
                       let v' = setVar [''PerFrameCB'', ''gColor''] (Float4Value (0, 1, 0, 1)) v;
                           p2 = p1\<lparr>GuidedRayViz.mpVars := Some v'\<rparr>
                       in Inr (emit (Rasterize s gs' v' (GuidedRayViz.mpRasterState p2)
                                       (GuidedRayViz.mpRasterState p2)) h2,
                               p2)))))"

text \<open>
  \<^verbatim>\<open>GuidedRayViz::execute\<close>. \<open>GuidedRayViz_draw\<close> above is its second half, from the creation of
  the target frame buffer to the end.
\<close>

definition GuidedRayViz_execute ::
  "RenderData \<Rightarrow> Host \<times> GuidedRayViz \<Rightarrow> GuidedRayViz Result" where
  "GuidedRayViz_execute rd hp =
     (case hp of (h, p) \<Rightarrow>
        (case GuidedRayViz.mpScene p of
           None \<Rightarrow> Inr (h, p)
         | Some s \<Rightarrow>
             (case dictUint h ''gGuidedRaysSize'' of
                Inl e \<Rightarrow> Inl (e, h, p)
              | Inr n \<Rightarrow>
                  let p1 = p\<lparr>GuidedRayViz.mGuidedRaysSize := n\<rparr> in
                  (case dictBuffer h ''gGuidedRays'' of
                     Inl e \<Rightarrow> Inl (e, h, p1)
                   | Inr b \<Rightarrow>
                       let p2 = p1\<lparr>GuidedRayViz.mGuidedRays := b\<rparr> in
                       (case dictBool h ''gComputeRays'' of
                          Inl e \<Rightarrow> Inl (e, h, p2)
                        | Inr c \<Rightarrow>
                            let p3 = p2\<lparr>GuidedRayViz.mComputeRays := c\<rparr> in
                            (case (if GuidedRayViz.mComputeRays p3
                                      \<and> GuidedRayViz.mGuidedRays p3 \<noteq> None
                                   then generateRaysGeometry (h, p3) else Inr (h, p3)) of
                               Inl e \<Rightarrow> Inl e
                             | Inr hp4 \<Rightarrow> GuidedRayViz_draw rd hp4))))))"

definition GuidedRayViz_setScene ::
  "(handle \<Rightarrow> Scene) \<Rightarrow> handle option \<Rightarrow> Host \<times> GuidedRayViz \<Rightarrow> GuidedRayViz Result" where
  "GuidedRayViz_setScene scn pScene hp =
     (case hp of (h, p) \<Rightarrow>
        let p1 = p\<lparr>GuidedRayViz.mpScene := pScene\<rparr> in
        (case GuidedRayViz.mpProgram p1 of
           None \<Rightarrow> Inl (NullDereference ''mpProgram'', h, p1)
         | Some g \<Rightarrow>
             let g' = (case GuidedRayViz.mpScene p1 of
                         None \<Rightarrow> g
                       | Some s \<Rightarrow> addDefines (getSceneDefines (scn s)) g);
                 (vars, h1) = ProgramVars_create g' h
             in Inr (h1, p1\<lparr>GuidedRayViz.mpProgram := Some g',
                             GuidedRayViz.mpVars := Some vars\<rparr>)))"

section \<open>MyTestPass: the wireframe raster pass\<close>

record MyTestPass =
  mpScene :: "handle option"
  mpProgram :: "Program option"
  mpGraphicsState :: "GraphicsState option"
  mpRasterState :: "RasterizerState option"
  mpVars :: "ProgramVars option"

definition MyTestPass_construct :: "Host \<Rightarrow> Host \<times> MyTestPass" where
  "MyTestPass_construct h =
     (let (prog, h1) = Program_createGraphics ''RenderPasses/MyTestPass/MyTestShader.slang''
                         ''vsMain'' ''psMain'' h;
          (rs, h2) = RasterizerState_create Wireframe CullNone h1;
          (gs0, h3) = GraphicsState_create h2;
          gs1 = gs0\<lparr>gs_program := Some (prog_id prog)\<rparr>;
          gs2 = gs1\<lparr>gs_rasterizerState := Some (rs_id rs)\<rparr>
      in (h3, \<lparr>mpScene = None, mpProgram = Some prog, mpGraphicsState = Some gs2,
               mpRasterState = Some rs, mpVars = None\<rparr>))"

definition MyTestPass_reflect :: RenderPassReflection where
  "MyTestPass_reflect =
     addOutput ''output'' ''Wireframe view texture'' \<lparr>inputs = [], outputs = []\<rparr>"

text \<open>
  \<^verbatim>\<open>MyTestPass::execute\<close>. The copy of the dictionary that it takes is never used, so it
  leaves no trace here.
\<close>

definition MyTestPass_execute ::
  "RenderData \<Rightarrow> Host \<times> MyTestPass \<Rightarrow> MyTestPass Result" where
  "MyTestPass_execute rd hp =
     (case hp of (h, p) \<Rightarrow>
        let (pTargetFbo, h1) = Fbo_create [getTexture rd ''output''] h;
            clearColor = (0, 0, 0, 1);
            h2 = emit (ClearFbo pTargetFbo clearColor 1.0 0) h1
        in
        (case MyTestPass.mpGraphicsState p of
           None \<Rightarrow> Inl (NullDereference ''mpGraphicsState'', h2, p)
         | Some gs \<Rightarrow>
             let gs' = gs\<lparr>gs_fbo := Some pTargetFbo\<rparr>;
                 p1 = p\<lparr>MyTestPass.mpGraphicsState := Some gs'\<rparr>
             in
             (case MyTestPass.mpScene p1 of
                None \<Rightarrow> Inr (h2, p1)
              | Some s \<Rightarrow>
                  (case MyTestPass.mpVars p1 of
                     None \<Rightarrow> Inl (NullDereference ''mpVars'', h2, p1)
                   | Some v \<Rightarrow>
                       let v' = setVar [''PerFrameCB'', ''gColor''] (Float4Value (0, 1, 0, 1)) v;
                           p2 = p1\<lparr>MyTestPass.mpVars := Some v'\<rparr>
                       in Inr (emit (Rasterize s gs' v' (MyTestPass.mpRasterState p2)
                                       (MyTestPass.mpRasterState p2)) h2,
                               p2)))))"

definition MyTestPass_setScene ::
  "(handle \<Rightarrow> Scene) \<Rightarrow> handle option \<Rightarrow> Host \<times> MyTestPass \<Rightarrow> MyTestPass Result" where
  "MyTestPass_setScene scn pScene hp =
     (case hp of (h, p) \<Rightarrow>
        let p1 = p\<lparr>MyTestPass.mpScene := pScene\<rparr> in
        (case MyTestPass.mpProgram p1 of
           None \<Rightarrow> Inl (NullDereference ''mpProgram'', h, p1)
         | Some g \<Rightarrow>
             let g' = (case MyTestPass.mpScene p1 of
                         None \<Rightarrow> g
                       | Some s \<Rightarrow> addDefines (getSceneDefines (scn s)) g);
                 (vars, h1) = ProgramVars_create g' h
             in Inr (h1, p1\<lparr>MyTestPass.mpProgram := Some g',
                             MyTestPass.mpVars := Some vars\<rparr>)))"

section \<open>Observations on results and command streams\<close>

text \<open>The host and pass as a call leaves them, whether it returned or threw.\<close>

definition resultState :: "'p Result \<Rightarrow> Host \<times> 'p" where
  "resultState r = (case r of Inl (e, hp) \<Rightarrow> hp | Inr hp \<Rightarrow> hp)"

definition resultError :: "'p Result \<Rightarrow> Error option" where
  "resultError r = (case r of Inl (e, hp) \<Rightarrow> Some e | Inr hp \<Rightarrow> None)"

text \<open>The commands and log entries that a call added to the stream of host \<open>h\<close>.\<close>

definition newEvents :: "Host \<Rightarrow> Host \<Rightarrow> Event list" where
  "newEvents h h' = drop (length (events h)) (events h')"

fun isRaytrace :: "Event \<Rightarrow> bool" where
  "isRaytrace (Raytrace s g v d) = True"
| "isRaytrace e = False"

fun isRasterize :: "Event \<Rightarrow> bool" where
  "isRasterize (Rasterize s gs v r1 r2) = True"
| "isRasterize e = False"

text \<open>A draw or ray-dispatch call.\<close>

definition isDraw :: "Event \<Rightarrow> bool" where
  "isDraw e = (isRaytrace e \<or> isRasterize e)"

text \<open>
  A ray dispatch uses only objects created at or after allocation count \<open>n\<close>, and its
  variables were created for the very program that is dispatched.
\<close>

fun raytraceSince :: "handle \<Rightarrow> Event \<Rightarrow> bool" where
  "raytraceSince n (Raytrace s g v d) =
     (n \<le> prog_id g \<and> n \<le> vars_id v \<and> vars_program v = prog_id g)"
| "raytraceSince n e = True"

text \<open>The four \<^verbatim>\<open>printf\<close> calls that \<^verbatim>\<open>generateRaysGeometry\<close> makes for record \<open>i\<close>.\<close>

definition rayPrintfs :: "uint \<Rightarrow> GuidedRayLine \<Rightarrow> Event list" where
  "rayPrintfs i rayLine =
     [Printf (''ray: %d'' @ [CHR 0x0A]) [UintArg i],
      Printf (''pos1: %f, %f, %f'' @ [CHR 0x0A])
        [FloatArg (fst (pos1 rayLine)), FloatArg (fst (snd (pos1 rayLine))),
         FloatArg (snd (snd (pos1 rayLine)))],
      Printf (''pos2: %f, %f, %f'' @ [CHR 0x0A])
        [FloatArg (fst (pos2 rayLine)), FloatArg (fst (snd (pos2 rayLine))),
         FloatArg (snd (snd (pos2 rayLine)))],
      Printf (''color: %f, %f, %f'' @ [CHR 0x0A])
        [FloatArg (fst (color rayLine)), FloatArg (fst (snd (color rayLine))),
         FloatArg (snd (snd (color rayLine)))]]"

section \<open>State invariants\<close>

text \<open>
  What holds of a FocalGuiding object between calls: without a scene the pipeline is empty;
  with a scene the program and the binding table exist, and variables, once created, belong
  to the current program and binding table.
\<close>

definition FocalGuiding_inv :: "FocalGuiding \<Rightarrow> bool" where
  "FocalGuiding_inv p =
     (case FocalGuiding.mpScene p of
        None \<Rightarrow> pProgram (mTracer p) = None \<and> pBindingTable (mTracer p) = None
                 \<and> pVars (mTracer p) = None
      | Some s \<Rightarrow>
          (case (pProgram (mTracer p), pBindingTable (mTracer p)) of
             (Some g, Some t) \<Rightarrow>
               (case pVars (mTracer p) of
                  None \<Rightarrow> True
                | Some v \<Rightarrow> vars_program v = prog_id g \<and> vars_bindingTable v = Some (sbt_id t))
           | _ \<Rightarrow> False))"

text \<open>
  What holds of a GuidedRayViz object between calls: the constructor's objects exist, and once
  a scene is set the variables exist and belong to the program.
\<close>

definition GuidedRayViz_inv :: "GuidedRayViz \<Rightarrow> bool" where
  "GuidedRayViz_inv p =
     (case (GuidedRayViz.mpProgram p, GuidedRayViz.mpGraphicsState p) of
        (Some g, Some gs) \<Rightarrow>
          (case GuidedRayViz.mpVars p of
             None \<Rightarrow> GuidedRayViz.mpScene p = None
           | Some v \<Rightarrow> vars_program v = prog_id g)
      | _ \<Rightarrow> False)"

section \<open>Concrete hosts, scenes and frames\<close>

definition scene0 :: Scene where
  "scene0 =
     \<lparr>getUpdates = {}, useEmissiveLights = False, getApertureRadius = 0,
      sceneBoundsMin = (0, 0, 0), sceneBoundsMax = (1, 1, 1),
      geometryTypes = {TriangleMesh}, getGeometryIDs = (\<lambda>t. [0]),
      getGeometryCount = 1, getShaderModules = [''Scene.slang''],
      getSceneDefines = [''SCENE_GEOMETRY_TYPES'' \<mapsto> ''1''],
      getTypeConformances = [], getRaytracingMaxAttributeSize = 8\<rparr>"

text \<open>A scene with custom primitives, emissive lights and an open aperture.\<close>

definition scene1 :: Scene where
  "scene1 =
     scene0\<lparr>useEmissiveLights := True, getApertureRadius := 0.5,
            geometryTypes := {TriangleMesh, Custom},
            getSceneDefines := [''SCENE_HAS_CUSTOM'' \<mapsto> ''1'']\<rparr>"

text \<open>The scene of \<open>scene0\<close> after the host changed its geometry.\<close>

definition scene2 :: Scene where
  "scene2 = scene0\<lparr>getUpdates := {GeometryChanged}\<rparr>"

definition scenes0 :: "handle \<Rightarrow> Scene" where
  "scenes0 r = (if r = 1 then scene1 else if r = 2 then scene2 else scene0)"

definition host0 :: Host where
  "host0 = \<lparr>nextHandle = 10, events = [], dictionary = Map.empty, assertsEnabled = True\<rparr>"

definition frame0 :: RenderData where
  "frame0 =
     \<lparr>getTexture = [''vbuffer'' \<mapsto> 100, ''color'' \<mapsto> 101, ''output'' \<mapsto> 102],
      getDefaultTextureDims = (1920, 1080)\<rparr>"

text \<open>A frame whose default target has no width.\<close>

definition frame1 :: RenderData where
  "frame1 = frame0\<lparr>getDefaultTextureDims := (0, 1080)\<rparr>"

definition line0 :: GuidedRayLine where
  "line0 = \<lparr>pos1 = (0, 0, 0), pos2 = (1, 2, 3), color = (1, 0, 0)\<rparr>"

definition lineBuffer0 :: Buffer where
  "lineBuffer0 =
     \<lparr>buf_id = 3, buf_elementCount = 2, buf_bindFlags = {ShaderResource, UnorderedAccess},
      buf_memoryType = DeviceLocal, buf_data = GuidedRayLines [line0, line0]\<rparr>"

text \<open>Dictionaries as another pass may leave them for GuidedRayViz.\<close>

definition dictRays :: "uint \<Rightarrow> Buffer option \<Rightarrow> bool \<Rightarrow> string \<rightharpoonup> DictValue" where
  "dictRays n b c =
     [''gGuidedRaysSize'' \<mapsto> UintEntry n, ''gGuidedRays'' \<mapsto> BufferEntry b,
      ''gComputeRays'' \<mapsto> BoolEntry c]"

text \<open>Objects built by the calls of the passes on the concrete host, for use as examples.\<close>

definition fgNew :: "Host \<times> FocalGuiding" where
  "fgNew = (host0, FocalGuiding_construct 1)"

definition fgBound0 :: "Host \<times> FocalGuiding" where
  "fgBound0 = FocalGuiding_setScene scenes0 (Some 0) fgNew"

definition fgBound1 :: "Host \<times> FocalGuiding" where
  "fgBound1 = FocalGuiding_setScene scenes0 (Some 1) fgNew"

definition fgBound2 :: "Host \<times> FocalGuiding" where
  "fgBound2 = FocalGuiding_setScene scenes0 (Some 2) fgNew"

definition vizNew :: "Host \<times> GuidedRayViz" where
  "vizNew = GuidedRayViz_construct host0"

definition vizBound0 :: "Host \<times> GuidedRayViz" where
  "vizBound0 = resultState (GuidedRayViz_setScene scenes0 (Some 0) vizNew)"

definition vizBound1 :: "Host \<times> GuidedRayViz" where
  "vizBound1 = resultState (GuidedRayViz_setScene scenes0 (Some 1) vizBound0)"

definition testNew :: "Host \<times> MyTestPass" where
  "testNew = MyTestPass_construct host0"

definition testBound0 :: "Host \<times> MyTestPass" where
  "testBound0 = resultState (MyTestPass_setScene scenes0 (Some 0) testNew)"

definition testBound1 :: "Host \<times> MyTestPass" where
  "testBound1 = resultState (MyTestPass_setScene scenes0 (Some 1) testBound0)"

text \<open>FocalGuiding bound to scene 0 after one frame has been rendered.\<close>

definition fgRan0 :: "Host \<times> FocalGuiding" where
  "fgRan0 = resultState (FocalGuiding_execute scenes0 frame0 fgBound0)"

section \<open>Call sequences\<close>

text \<open>
  The FocalGuiding objects that a host can hold: one built by the constructor and then put
  through any sequence of \<^verbatim>\<open>setScene\<close> and \<^verbatim>\<open>execute\<close> calls, each made in whatever state the
  host is in at that moment. A call that throws leaves the object as it was at the throw, and
  the host may go on calling it.
\<close>

inductive FocalGuiding_reachable :: "FocalGuiding \<Rightarrow> bool" where
  constructed: "FocalGuiding_reachable (FocalGuiding_construct n)"
| afterSetScene:
    "FocalGuiding_reachable p \<Longrightarrow>
     FocalGuiding_reachable (snd (FocalGuiding_setScene scn pScene (h, p)))"
| afterExecute:
    "FocalGuiding_reachable p \<Longrightarrow>
     FocalGuiding_reachable (snd (resultState (FocalGuiding_execute scn rd (h, p))))"

text \<open>The value of a define of a program held through a nullable reference.\<close>

definition programDefine :: "Program option \<Rightarrow> string \<Rightarrow> string option" where
  "programDefine g k = (case g of None \<Rightarrow> None | Some g' \<Rightarrow> prog_defines g' k)"

text \<open>The buffer holds line records, at least \<open>n\<close> of them.\<close>

definition holdsLines :: "Buffer \<Rightarrow> nat \<Rightarrow> bool" where
  "holdsLines b n = (case buf_data b of GuidedRayLines ls \<Rightarrow> n \<le> length ls | DensityNodes ns \<Rightarrow> False)"

definition bufferLines :: "Buffer \<Rightarrow> GuidedRayLine list" where
  "bufferLines b = (case buf_data b of GuidedRayLines ls \<Rightarrow> ls | DensityNodes ns \<Rightarrow> [])"

text \<open>
  GuidedRayViz bound to a scene, in a frame whose dictionary offers two line records but has
  the recompute flag cleared; the same with the flag set; and with the flag set and a count
  of zero.
\<close>

definition vizFlagClear :: "Host \<times> GuidedRayViz" where
  "vizFlagClear =
     ((fst vizBound0)\<lparr>dictionary := dictRays 2 (Some lineBuffer0) False\<rparr>, snd vizBound0)"

definition vizFlagSet :: "Host \<times> GuidedRayViz" where
  "vizFlagSet =
     ((fst vizBound0)\<lparr>dictionary := dictRays 2 (Some lineBuffer0) True\<rparr>, snd vizBound0)"

definition vizCountZero :: "Host \<times> GuidedRayViz" where
  "vizCountZero =
     ((fst vizBound0)\<lparr>dictionary := dictRays 0 (Some lineBuffer0) True\<rparr>, snd vizBound0)"

section \<open>Basic facts about the host operations\<close>

lemma events_emit [simp]: "events (emit e h) = events h @ [e]"
  by (simp add: emit_def)

lemma nextHandle_emit [simp]: "nextHandle (emit e h) = nextHandle h"
  by (simp add: emit_def)

lemma assertsEnabled_emit [simp]: "assertsEnabled (emit e h) = assertsEnabled h"
  by (simp add: emit_def)

lemma dictionary_emit [simp]: "dictionary (emit e h) = dictionary h"
  by (simp add: emit_def)

lemma newEvents_self [simp]: "newEvents h h = []"
  by (simp add: newEvents_def)

lemma newEvents_append [simp]: "events h' = events h @ es \<Longrightarrow> newEvents h h' = es"
  by (simp add: newEvents_def)

lemma setVar_id [simp]:
  "vars_id (setVar path x v) = vars_id v"
  "vars_program (setVar path x v) = vars_program v"
  "vars_bindingTable (setVar path x v) = vars_bindingTable v"
  by (simp_all add: setVar_def)

lemma bindChannel_id [simp]:
  "vars_id (bindChannel rd c v) = vars_id v"
  "vars_program (bindChannel rd c v) = vars_program v"
  "vars_bindingTable (bindChannel rd c v) = vars_bindingTable v"
  by (simp_all add: bindChannel_def)

lemma bindChannels_id [simp]:
  "vars_id (bindChannels rd cs v) = vars_id v"
  "vars_program (bindChannels rd cs v) = vars_program v"
  "vars_bindingTable (bindChannels rd cs v) = vars_bindingTable v"
  by (induction cs arbitrary: v) simp_all

lemma addDefines_id [simp]: "prog_id (addDefines dl g) = prog_id g"
  by (simp add: addDefines_def)

lemma setTypeConformances_id [simp]: "prog_id (setTypeConformances tc g) = prog_id g"
  by (simp add: setTypeConformances_def)

section \<open>The density grid initialiser\<close>

text \<open>
  C1, as the claim states it, fails: child slot 1 of the single initialiser record has density
  weight 0.9, not 0.5.
\<close>

theorem initDensities_slot1_counterexample:
  "density (childs (initDensities ! 0) ! 1) = 0.9
   \<and> density (childs (initDensities ! 0) ! 1) \<noteq> 0.5"
  by (simp add: initDensities_def)

text \<open>
  C1, amended: \<^verbatim>\<open>prepareVars\<close> has a single initialiser record. Its child slots 0, 2, 4 and 6
  have density weight 0.5, slots 1, 3 and 5 have 0.9 and slot 7 has 1.0; every child index is
  0 and every placeholder is 0.0. Whenever \<^verbatim>\<open>prepareVars\<close> returns, the density buffer it
  created was given exactly this record as initial data.
\<close>

theorem prepareVars_initDensities:
  "length initDensities = 1
   \<and> map density (childs (initDensities ! 0)) = [0.5, 0.9, 0.5, 0.9, 0.5, 0.9, 0.5, 1.0]
   \<and> map index (childs (initDensities ! 0)) = [0, 0, 0, 0, 0, 0, 0, 0]
   \<and> map placeholder (childs (initDensities ! 0)) = [0, 0, 0, 0, 0, 0, 0, 0]
   \<and> (\<forall>h' p'. FocalGuiding_prepareVars scn (h, p) = Inr (h', p') \<longrightarrow>
         (\<exists>b. mNodes p' = Some b \<and> buf_id b = Suc (nextHandle h)
              \<and> buf_elementCount b = mNodesSize p
              \<and> buf_data b = DensityNodes initDensities))"
  by (auto simp: initDensities_def FocalGuiding_prepareVars_def createStructuredBuffer_def
        alloc_def Let_def split: option.splits if_splits)

text \<open>The definitions to unfold when \<^verbatim>\<open>setScene\<close> of FocalGuiding is run on the concrete objects.\<close>

lemmas FocalGuiding_setScene_eval =
  FocalGuiding_setScene_def FocalGuiding_construct_def RtBindingTable_create_def
  Program_create_def alloc_def addEntryPoint_def setRayGen_def setMiss_def setHitGroup_def
  hasGeometryType_def emptyProgramDesc_def Let_def host0_def scenes0_def scene0_def
  scene1_def scene2_def fgNew_def

theorem prepareVars_initDensities_witness:
  "resultError (FocalGuiding_prepareVars scenes0 fgBound0) = None
   \<and> map_option buf_data (mNodes (snd (resultState (FocalGuiding_prepareVars scenes0 fgBound0))))
       = Some (DensityNodes initDensities)"
proof -
  obtain h p where hp: "fgBound0 = (h, p)"
    by (cases fgBound0)
  have "FocalGuiding.mpScene p \<noteq> None" and "pProgram (mTracer p) \<noteq> None"
    using hp by (auto simp: fgBound0_def FocalGuiding_setScene_eval)
  then obtain h' p' where "FocalGuiding_prepareVars scenes0 (h, p) = Inr (h', p')"
    by (auto simp: FocalGuiding_prepareVars_def createStructuredBuffer_def alloc_def
        assertFails_def Let_def)
  with prepareVars_initDensities [of scenes0 h p] hp show ?thesis
    by (auto simp: resultError_def resultState_def)
qed

section \<open>Execution without a scene\<close>

text \<open>
  FocalGuiding without a scene: each connected output channel is cleared, in the order of
  declaration, and nothing else is sent to the host.
\<close>

lemma clearOutputs_kOutputChannels:
  "clearOutputs kOutputChannels rd h =
     (case getTexture rd ''color'' of None \<Rightarrow> h | Some t \<Rightarrow> emit (ClearTexture t) h)"
  by (cases "getTexture rd ''color''") (simp_all add: kOutputChannels_def)

lemma FocalGuiding_execute_null_scene:
  "map field_name (outputs FocalGuiding_reflect) = [''color'']
   \<and> FocalGuiding_execute scn rd (h, p\<lparr>FocalGuiding.mpScene := None\<rparr>) =
       Inr (case getTexture rd ''color'' of None \<Rightarrow> h | Some t \<Rightarrow> emit (ClearTexture t) h,
            p\<lparr>FocalGuiding.mpScene := None\<rparr>)"
proof (intro conjI)
  show "map field_name (outputs FocalGuiding_reflect) = [''color'']"
    by (simp add: FocalGuiding_reflect_def addRenderPassOutputs_def addRenderPassInputs_def
        kOutputChannels_def channelField_def)
next
  show "FocalGuiding_execute scn rd (h, p\<lparr>FocalGuiding.mpScene := None\<rparr>) =
       Inr (case getTexture rd ''color'' of None \<Rightarrow> h | Some t \<Rightarrow> emit (ClearTexture t) h,
            p\<lparr>FocalGuiding.mpScene := None\<rparr>)"
    by (simp add: FocalGuiding_execute_def clearOutputs_kOutputChannels)
qed

text \<open>
  MyTestPass without a scene: the frame buffer made of the output texture is cleared and no
  draw call is issued.
\<close>

lemma MyTestPass_execute_null_scene:
  assumes "MyTestPass.mpScene p = None" and "MyTestPass.mpGraphicsState p = Some gs"
  shows "newEvents h (fst (resultState (MyTestPass_execute rd (h, p)))) =
           [ClearFbo \<lparr>fbo_id = nextHandle h, fbo_colorTargets = [getTexture rd ''output'']\<rparr>
              (0, 0, 0, 1) 1 0]"
  using assms
  by (simp add: MyTestPass_execute_def Fbo_create_def alloc_def resultState_def)

text \<open>
  C2: \<^verbatim>\<open>GuidedRayViz::reflect\<close> declares the output channel \<^verbatim>\<open>output\<close>, but
  \<^verbatim>\<open>GuidedRayViz::execute\<close> without a scene returns at once: the host receives no command at
  all, so the declared output is not cleared (and nothing is drawn). The two sibling passes
  do clear their outputs in this situation. The last four conjuncts run the newly constructed
  pass on a frame that has a texture connected to \<^verbatim>\<open>output\<close>: host and pass come back
  unchanged, the command stream still empty.
\<close>

theorem GuidedRayViz_execute_null_scene:
  "map field_name (outputs GuidedRayViz_reflect) = [''output'']
   \<and> GuidedRayViz_execute rd (h, p\<lparr>GuidedRayViz.mpScene := None\<rparr>)
       = Inr (h, p\<lparr>GuidedRayViz.mpScene := None\<rparr>)
   \<and> newEvents h (fst (resultState
        (GuidedRayViz_execute rd (h, p\<lparr>GuidedRayViz.mpScene := None\<rparr>)))) = []
   \<and> GuidedRayViz.mpScene (snd vizNew) = None
   \<and> getTexture frame0 ''output'' = Some 102
   \<and> GuidedRayViz_execute frame0 vizNew = Inr vizNew
   \<and> events (fst vizNew) = []"
proof (intro conjI)
  show "map field_name (outputs GuidedRayViz_reflect) = [''output'']"
    by (simp add: GuidedRayViz_reflect_def addOutput_def)
next
  show "GuidedRayViz_execute rd (h, p\<lparr>GuidedRayViz.mpScene := None\<rparr>)
       = Inr (h, p\<lparr>GuidedRayViz.mpScene := None\<rparr>)"
    by (simp add: GuidedRayViz_execute_def)
  then show "newEvents h (fst (resultState
        (GuidedRayViz_execute rd (h, p\<lparr>GuidedRayViz.mpScene := None\<rparr>)))) = []"
    by (simp add: resultState_def)
next
  show none: "GuidedRayViz.mpScene (snd vizNew) = None"
    by (simp add: vizNew_def GuidedRayViz_construct_def Program_createGraphics_def
        RasterizerState_create_def GraphicsState_create_def alloc_def Let_def)
  obtain h0 p0 where new: "vizNew = (h0, p0)"
    by (cases vizNew)
  from none have "GuidedRayViz.mpScene p0 = None"
    unfolding new snd_conv .
  then have "GuidedRayViz_execute frame0 (h0, p0) = Inr (h0, p0)"
    by (simp add: GuidedRayViz_execute_def)
  then show "GuidedRayViz_execute frame0 vizNew = Inr vizNew"
    by (simp only: new)
next
  show "getTexture frame0 ''output'' = Some 102"
    by (simp add: frame0_def)
next
  show "events (fst vizNew) = []"
    by (simp add: vizNew_def GuidedRayViz_construct_def Program_createGraphics_def
        RasterizerState_create_def GraphicsState_create_def alloc_def Let_def host0_def)
qed

section \<open>Geometry changes are rejected\<close>

text \<open>
  C6: when \<^verbatim>\<open>FocalGuiding::execute\<close> runs with a scene whose update flags include a geometry
  change, it throws a runtime error, and host and pass are exactly as they were before the
  call: no define was added, nothing was bound, no ray was dispatched.
\<close>

theorem FocalGuiding_execute_geometry_changed:
  "FocalGuiding.mpScene p = Some s \<Longrightarrow> is_set (getUpdates (scn s)) GeometryChanged \<Longrightarrow>
   FocalGuiding_execute scn rd (h, p) =
     Inl (RuntimeError
            ''DirectRayTracer: This render pass does not support scene geometry changes.'',
          h, p)"
  by (simp add: FocalGuiding_execute_def)

theorem FocalGuiding_execute_geometry_changed_witness:
  "FocalGuiding.mpScene (snd fgBound2) = Some 2
   \<and> is_set (getUpdates (scenes0 2)) GeometryChanged
   \<and> FocalGuiding_execute scenes0 frame0 fgBound2 =
       Inl (RuntimeError
              ''DirectRayTracer: This render pass does not support scene geometry changes.'',
            fgBound2)"
proof -
  have scene: "FocalGuiding.mpScene (snd fgBound2) = Some 2"
    by (simp add: fgBound2_def FocalGuiding_setScene_eval)
  have changed: "is_set (getUpdates (scenes0 2)) GeometryChanged"
    by (simp add: is_set_def scenes0_def scene2_def)
  from FocalGuiding_execute_geometry_changed
         [where p = "snd fgBound2" and s = 2 and scn = scenes0 and rd = frame0
            and h = "fst fgBound2"]
  show ?thesis
    using scene changed by simp
qed

section \<open>FocalGuiding: the shape of each call\<close>

lemmas FocalGuiding_setScene_unfold =
  FocalGuiding_setScene_def RtBindingTable_create_def Program_create_def
  alloc_def addEntryPoint_def setRayGen_def setMiss_def setHitGroup_def emit_def Let_def
  emptyProgramDesc_def

lemma FocalGuiding_setScene_None:
  "FocalGuiding_setScene scn None (h, p) =
     (h, p\<lparr>FocalGuiding.mpScene := None,
            mTracer := (mTracer p)\<lparr>pProgram := None, pBindingTable := None, pVars := None\<rparr>\<rparr>)"
  by (simp add: FocalGuiding_setScene_def)

lemma FocalGuiding_setScene_Some:
  fixes scn s h p
  defines "r \<equiv> FocalGuiding_setScene scn (Some s) (h, p)"
  shows "nextHandle (fst r) = Suc (Suc (nextHandle h))"
    and "events (fst r) = events h @
          (if hasGeometryType (scn s) Custom
           then [LogWarning
                   ''DirectRayTracer: This render pass does not support custom primitives.'' []]
           else [])"
    and "dictionary (fst r) = dictionary h"
    and "assertsEnabled (fst r) = assertsEnabled h"
    and "FocalGuiding.mpScene (snd r) = Some s"
    and "mNodes (snd r) = mNodes p"
    and "mNodesSize (snd r) = mNodesSize p"
    and "pVars (mTracer (snd r)) = None"
    and "map_option prog_id (pProgram (mTracer (snd r))) = Some (Suc (nextHandle h))"
    and "map_option prog_defines (pProgram (mTracer (snd r))) = Some (getSceneDefines (scn s))"
    and "map_option sbt_id (pBindingTable (mTracer (snd r))) = Some (nextHandle h)"
  by (simp_all add: r_def FocalGuiding_setScene_unfold)

lemma FocalGuiding_setScene_inv:
  "FocalGuiding_inv (snd (FocalGuiding_setScene scn pScene (h, p)))"
proof (cases pScene)
  case None
  then show ?thesis
    by (simp add: FocalGuiding_setScene_None FocalGuiding_inv_def)
next
  case (Some s)
  with FocalGuiding_setScene_Some [of scn s h p] show ?thesis
    by (auto simp: FocalGuiding_inv_def split: option.splits)
qed

lemma FocalGuiding_setScene_tracer_independent:
  "FocalGuiding_setScene scn pScene (h, p\<lparr>mTracer := tr\<rparr>) = FocalGuiding_setScene scn pScene (h, p)"
  by (cases pScene) (simp_all add: FocalGuiding_setScene_unfold)

lemma FocalGuiding_prepareVars_ok:
  assumes "FocalGuiding.mpScene p = Some s" and "pProgram (mTracer p) = Some g"
  shows "FocalGuiding_prepareVars scn (h, p) =
     Inr (h\<lparr>nextHandle := Suc (Suc (nextHandle h))\<rparr>,
          p\<lparr>mTracer := (mTracer p)
               \<lparr>pProgram := Some (setTypeConformances (getTypeConformances (scn s)) g),
                pVars := Some \<lparr>vars_id = nextHandle h, vars_program = prog_id g,
                              vars_bindingTable = map_option sbt_id (pBindingTable (mTracer p)),
                              vars_values = Map.empty\<rparr>\<rparr>,
             mNodes := Some \<lparr>buf_id = Suc (nextHandle h), buf_elementCount = mNodesSize p,
                             buf_bindFlags = {ShaderResource, UnorderedAccess},
                             buf_memoryType = DeviceLocal,
                             buf_data = DensityNodes initDensities\<rparr>\<rparr>)"
  using assms
  by (simp add: FocalGuiding_prepareVars_def createStructuredBuffer_def alloc_def
      assertFails_def)

lemma FocalGuiding_execute_success:
  assumes "FocalGuiding_inv p" and "FocalGuiding.mpScene p = Some s"
    and "\<not> is_set (getUpdates (scn s)) GeometryChanged"
    and "\<not> assertFails h (fst (getDefaultTextureDims rd) > 0 \<and> snd (getDefaultTextureDims rd) > 0)"
  shows "\<exists>h' p' g v. FocalGuiding_execute scn rd (h, p) = Inr (h', p')
     \<and> events h' = events h
         @ (if useEmissiveLights (scn s) then [GetLightCollection s] else [])
         @ (if getApertureRadius (scn s) > 0 \<and> getTexture rd kInputViewDir = None
            then [LogWarning ''Depth-of-field requires the '{}' input. Expect incorrect shading.''
                    [kInputViewDir]] else [])
         @ [Raytrace s g v (fst (getDefaultTextureDims rd), snd (getDefaultTextureDims rd), 1)]
     \<and> pProgram (mTracer p') = Some g \<and> pVars (mTracer p') = Some v
     \<and> vars_program v = prog_id g
     \<and> map_option prog_id (pProgram (mTracer p)) = Some (prog_id g)
     \<and> vars_id v = (case pVars (mTracer p) of None \<Rightarrow> nextHandle h | Some v0 \<Rightarrow> vars_id v0)
     \<and> nextHandle h' = (case pVars (mTracer p) of None \<Rightarrow> Suc (Suc (nextHandle h))
                          | Some v0 \<Rightarrow> nextHandle h)
     \<and> FocalGuiding.mpScene p' = Some s \<and> FocalGuiding_inv p'"
proof -
  from assms(1,2) obtain g t where g: "pProgram (mTracer p) = Some g"
    and t: "pBindingTable (mTracer p) = Some t"
    by (auto simp: FocalGuiding_inv_def split: option.splits)
  show ?thesis
  proof (cases "pVars (mTracer p)")
    case None
    with assms g t show ?thesis
      by (simp add: FocalGuiding_execute_def FocalGuiding_prepareVars_ok FocalGuiding_inv_def
          assertFails_def Let_def)
  next
    case (Some v)
    with assms g t show ?thesis
      by (simp add: FocalGuiding_execute_def FocalGuiding_inv_def assertFails_def Let_def)
  qed
qed

lemma FocalGuiding_execute_dims_assert:
  assumes "FocalGuiding_inv p" and "FocalGuiding.mpScene p = Some s"
    and "\<not> is_set (getUpdates (scn s)) GeometryChanged"
    and "assertFails h (fst (getDefaultTextureDims rd) > 0 \<and> snd (getDefaultTextureDims rd) > 0)"
  shows "\<exists>h' p' v. FocalGuiding_execute scn rd (h, p) =
        Inl (AssertionFailed ''targetDim.x > 0 && targetDim.y > 0'', h', p')
     \<and> events h' = events h
         @ (if useEmissiveLights (scn s) then [GetLightCollection s] else [])
         @ (if getApertureRadius (scn s) > 0 \<and> getTexture rd kInputViewDir = None
            then [LogWarning ''Depth-of-field requires the '{}' input. Expect incorrect shading.''
                    [kInputViewDir]] else [])
     \<and> pVars (mTracer p') = Some v
     \<and> vars_id v = (case pVars (mTracer p) of None \<Rightarrow> nextHandle h | Some v0 \<Rightarrow> vars_id v0)
     \<and> nextHandle h' = (case pVars (mTracer p) of None \<Rightarrow> Suc (Suc (nextHandle h))
                          | Some v0 \<Rightarrow> nextHandle h)
     \<and> FocalGuiding.mpScene p' = Some s \<and> FocalGuiding_inv p'"
proof -
  from assms(1,2) obtain g t where g: "pProgram (mTracer p) = Some g"
    and t: "pBindingTable (mTracer p) = Some t"
    by (auto simp: FocalGuiding_inv_def split: option.splits)
  show ?thesis
  proof (cases "pVars (mTracer p)")
    case None
    with assms g t show ?thesis
      by (simp add: FocalGuiding_execute_def FocalGuiding_prepareVars_ok FocalGuiding_inv_def
          assertFails_def Let_def)
  next
    case (Some v)
    with assms g t show ?thesis
      by (simp add: FocalGuiding_execute_def FocalGuiding_inv_def assertFails_def Let_def)
  qed
qed

lemma FocalGuiding_execute_inv:
  assumes "FocalGuiding_inv p"
  shows "FocalGuiding_inv (snd (resultState (FocalGuiding_execute scn rd (h, p))))"
proof (cases "FocalGuiding.mpScene p")
  case None
  with assms show ?thesis
    by (simp add: FocalGuiding_execute_def resultState_def)
next
  case (Some s)
  show ?thesis
  proof (cases "is_set (getUpdates (scn s)) GeometryChanged")
    case True
    with Some assms show ?thesis
      by (simp add: FocalGuiding_execute_def resultState_def)
  next
    case False
    show ?thesis
    proof (cases "assertFails h (fst (getDefaultTextureDims rd) > 0
                     \<and> snd (getDefaultTextureDims rd) > 0)")
      case True
      from assms Some False True
        FocalGuiding_execute_dims_assert [where p = p and s = s and scn = scn and h = h and rd = rd]
      show ?thesis
        by (auto simp: resultState_def)
    next
      case nofail: False
      from assms Some False nofail
        FocalGuiding_execute_success [where p = p and s = s and scn = scn and h = h and rd = rd]
      show ?thesis
        by (auto simp: resultState_def)
    qed
  qed
qed

section \<open>Reachable objects\<close>

text \<open>Every object that the host can hold satisfies the invariant.\<close>

lemma FocalGuiding_reachable_inv:
  "FocalGuiding_reachable p \<Longrightarrow> FocalGuiding_inv p"
proof (induction rule: FocalGuiding_reachable.induct)
  case (constructed n)
  show ?case
    by (simp add: FocalGuiding_inv_def FocalGuiding_construct_def)
next
  case (afterSetScene p scn pScene h)
  show ?case
    by (rule FocalGuiding_setScene_inv)
next
  case (afterExecute p scn rd h)
  from afterExecute.IH show ?case
    by (rule FocalGuiding_execute_inv)
qed

lemma isDraw_simps [simp]:
  "isDraw (Raytrace s g v d)"
  "isDraw (Rasterize s gs v r1 r2)"
  "\<not> isDraw (ClearTexture t)"
  "\<not> isDraw (ClearFbo f c dp st)"
  "\<not> isDraw (LogWarning m as)"
  "\<not> isDraw (GetLightCollection s)"
  "\<not> isDraw (Printf m ps)"
  by (simp_all add: isDraw_def)

text \<open>The concrete pass bound to scene 0.\<close>

lemma fgBound0_facts:
  "FocalGuiding_inv (snd fgBound0)"
  "FocalGuiding.mpScene (snd fgBound0) = Some 0"
  "events (fst fgBound0) = []"
  "nextHandle (fst fgBound0) = 12"
  "assertsEnabled (fst fgBound0)"
  "pVars (mTracer (snd fgBound0)) = None"
     apply (simp add: fgBound0_def fgNew_def FocalGuiding_setScene_inv)
  using FocalGuiding_setScene_Some [of scenes0 0 host0 "FocalGuiding_construct 1"]
    by (simp_all add: fgBound0_def fgNew_def host0_def scenes0_def scene0_def
      hasGeometryType_def)

section \<open>The ray dispatch of FocalGuiding\<close>

text \<open>
  C9, as the claim states it, fails: the pass is bound to a scene whose geometry did not
  change, but the frame's default target has width 0. With assertions compiled in, the
  assertion on the target dimensions stops the call and no ray dispatch is issued.
\<close>

theorem FocalGuiding_execute_zero_width_counterexample:
  "FocalGuiding.mpScene (snd fgBound0) = Some 0
   \<and> \<not> is_set (getUpdates (scenes0 0)) GeometryChanged
   \<and> getDefaultTextureDims frame1 = (0, 1080)
   \<and> resultError (FocalGuiding_execute scenes0 frame1 fgBound0)
       = Some (AssertionFailed ''targetDim.x > 0 && targetDim.y > 0'')
   \<and> filter isDraw (events (fst (resultState (FocalGuiding_execute scenes0 frame1 fgBound0))))
       = []"
proof -
  have geom: "\<not> is_set (getUpdates (scenes0 0)) GeometryChanged"
    by (simp add: is_set_def scenes0_def scene0_def)
  have dims: "getDefaultTextureDims frame1 = (0, 1080)"
    by (simp add: frame1_def frame0_def)
  have fails: "assertFails (fst fgBound0)
      (fst (getDefaultTextureDims frame1) > 0 \<and> snd (getDefaultTextureDims frame1) > 0)"
    by (simp add: assertFails_def fgBound0_facts dims)
  from FocalGuiding_execute_dims_assert
         [where p = "snd fgBound0" and s = 0 and scn = scenes0 and h = "fst fgBound0"
            and rd = frame1, OF fgBound0_facts(1,2) geom fails]
  show ?thesis
    using geom dims
    by (auto simp: fgBound0_facts resultError_def resultState_def scenes0_def scene0_def)
qed

text \<open>
  C9, amended: every \<^verbatim>\<open>FocalGuiding::execute\<close> call with a non-null scene and no geometry
  change, in which the frame's default target width and height are non-zero or assertions
  are compiled out, returns normally and issues exactly one draw or dispatch call: a ray
  dispatch of the bound scene with the current program and variables, whose dimensions are
  the default target resolution in x and y and 1 in z.
\<close>

theorem FocalGuiding_execute_one_dispatch:
  assumes "FocalGuiding_inv p" and "FocalGuiding.mpScene p = Some s"
    and "\<not> is_set (getUpdates (scn s)) GeometryChanged"
    and "assertsEnabled h \<longrightarrow>
           0 < fst (getDefaultTextureDims rd) \<and> 0 < snd (getDefaultTextureDims rd)"
  shows "\<exists>h' p' g v. FocalGuiding_execute scn rd (h, p) = Inr (h', p')
     \<and> filter isDraw (newEvents h h') =
         [Raytrace s g v (fst (getDefaultTextureDims rd), snd (getDefaultTextureDims rd), 1)]
     \<and> pProgram (mTracer p') = Some g \<and> pVars (mTracer p') = Some v
     \<and> vars_program v = prog_id g"
proof -
  from assms(4) have ok: "\<not> assertFails h
      (fst (getDefaultTextureDims rd) > 0 \<and> snd (getDefaultTextureDims rd) > 0)"
    by (auto simp: assertFails_def)
  from FocalGuiding_execute_success
         [where p = p and s = s and scn = scn and h = h and rd = rd, OF assms(1,2,3) ok]
  obtain h' p' g v where r: "FocalGuiding_execute scn rd (h, p) = Inr (h', p')"
    and ev: "events h' = events h
         @ (if useEmissiveLights (scn s) then [GetLightCollection s] else [])
         @ (if getApertureRadius (scn s) > 0 \<and> getTexture rd kInputViewDir = None
            then [LogWarning ''Depth-of-field requires the '{}' input. Expect incorrect shading.''
                    [kInputViewDir]] else [])
         @ [Raytrace s g v (fst (getDefaultTextureDims rd), snd (getDefaultTextureDims rd), 1)]"
    and rest: "pProgram (mTracer p') = Some g" "pVars (mTracer p') = Some v"
      "vars_program v = prog_id g"
    by blast
  from ev have "filter isDraw (newEvents h h') =
      [Raytrace s g v (fst (getDefaultTextureDims rd), snd (getDefaultTextureDims rd), 1)]"
    by (simp add: newEvents_def)
  with r rest show ?thesis
    by blast
qed

theorem FocalGuiding_execute_one_dispatch_witness:
  "FocalGuiding_inv (snd fgBound0) \<and> FocalGuiding.mpScene (snd fgBound0) = Some 0
   \<and> \<not> is_set (getUpdates (scenes0 0)) GeometryChanged
   \<and> assertsEnabled (fst fgBound0)
   \<and> 0 < fst (getDefaultTextureDims frame0) \<and> 0 < snd (getDefaultTextureDims frame0)
   \<and> (\<exists>h' p' g v. FocalGuiding_execute scenes0 frame0 fgBound0 = Inr (h', p')
         \<and> filter isDraw (newEvents (fst fgBound0) h') = [Raytrace 0 g v (1920, 1080, 1)])"
proof -
  have geom: "\<not> is_set (getUpdates (scenes0 0)) GeometryChanged"
    by (simp add: is_set_def scenes0_def scene0_def)
  have dims: "assertsEnabled (fst fgBound0) \<longrightarrow>
         0 < fst (getDefaultTextureDims frame0) \<and> 0 < snd (getDefaultTextureDims frame0)"
    by (simp add: frame0_def)
  from FocalGuiding_execute_one_dispatch
         [where p = "snd fgBound0" and s = 0 and scn = scenes0 and h = "fst fgBound0"
            and rd = frame0, OF fgBound0_facts(1,2) geom dims]
  show ?thesis
    using geom dims by (auto simp: fgBound0_facts frame0_def)
qed

section \<open>The assertions of FocalGuiding\<close>

text \<open>
  With a scene bound, \<^verbatim>\<open>execute\<close> can end in exactly three ways: the geometry-change error,
  the failed assertion on the target dimensions, or a normal return.
\<close>

lemma FocalGuiding_execute_errors:
  assumes "FocalGuiding_inv p" and "FocalGuiding.mpScene p = Some s"
  shows "resultError (FocalGuiding_execute scn rd (h, p)) =
     (if is_set (getUpdates (scn s)) GeometryChanged
      then Some (RuntimeError
             ''DirectRayTracer: This render pass does not support scene geometry changes.'')
      else if assertFails h (fst (getDefaultTextureDims rd) > 0
                              \<and> snd (getDefaultTextureDims rd) > 0)
      then Some (AssertionFailed ''targetDim.x > 0 && targetDim.y > 0'')
      else None)"
proof (cases "is_set (getUpdates (scn s)) GeometryChanged")
  case True
  with assms(2) show ?thesis
    by (simp add: FocalGuiding_execute_def resultError_def)
next
  case False
  show ?thesis
  proof (cases "assertFails h (fst (getDefaultTextureDims rd) > 0
                     \<and> snd (getDefaultTextureDims rd) > 0)")
    case True
    from assms False True
      FocalGuiding_execute_dims_assert [where p = p and s = s and scn = scn and h = h and rd = rd]
    show ?thesis
      by (auto simp: resultError_def)
  next
    case nofail: False
    from assms False nofail
      FocalGuiding_execute_success [where p = p and s = s and scn = scn and h = h and rd = rd]
    show ?thesis
      by (auto simp: resultError_def)
  qed
qed

text \<open>
  C10: after any \<^verbatim>\<open>FocalGuiding::setScene\<close> call, from any state, a non-null scene reference
  comes with a non-null program and binding table. Consequently, for every object the host
  can hold and every \<^verbatim>\<open>execute\<close> call on it with a non-null scene, the two assertions of
  \<^verbatim>\<open>prepareVars\<close> (scene, program) and the assertion after it (variables) do not fail, and
  no null reference is dereferenced.
\<close>

theorem FocalGuiding_assertions_never_fail:
  assumes "FocalGuiding_reachable p"
  shows "(FocalGuiding.mpScene (snd (FocalGuiding_setScene scn0 pScene (h0, p0))) \<noteq> None \<longrightarrow>
            pProgram (mTracer (snd (FocalGuiding_setScene scn0 pScene (h0, p0)))) \<noteq> None
          \<and> pBindingTable (mTracer (snd (FocalGuiding_setScene scn0 pScene (h0, p0)))) \<noteq> None)
     \<and> (FocalGuiding.mpScene p \<noteq> None \<longrightarrow>
            pProgram (mTracer p) \<noteq> None \<and> pBindingTable (mTracer p) \<noteq> None
          \<and> resultError (FocalGuiding_execute scn rd (h, p)) \<noteq> Some (AssertionFailed ''mpScene'')
          \<and> resultError (FocalGuiding_execute scn rd (h, p))
               \<noteq> Some (AssertionFailed ''mTracer.pProgram'')
          \<and> resultError (FocalGuiding_execute scn rd (h, p))
               \<noteq> Some (AssertionFailed ''mTracer.pVars'')
          \<and> (\<forall>x. resultError (FocalGuiding_execute scn rd (h, p)) \<noteq> Some (NullDereference x)))"
proof (intro conjI impI)
  assume "FocalGuiding.mpScene (snd (FocalGuiding_setScene scn0 pScene (h0, p0))) \<noteq> None"
  with FocalGuiding_setScene_inv [of scn0 pScene h0 p0]
  show "pProgram (mTracer (snd (FocalGuiding_setScene scn0 pScene (h0, p0)))) \<noteq> None"
    and "pBindingTable (mTracer (snd (FocalGuiding_setScene scn0 pScene (h0, p0)))) \<noteq> None"
    by (auto simp: FocalGuiding_inv_def split: option.splits)
next
  from assms have inv: "FocalGuiding_inv p"
    by (rule FocalGuiding_reachable_inv)
  assume "FocalGuiding.mpScene p \<noteq> None"
  then obtain s where s: "FocalGuiding.mpScene p = Some s"
    by auto
  from inv s show "pProgram (mTracer p) \<noteq> None" and "pBindingTable (mTracer p) \<noteq> None"
    by (auto simp: FocalGuiding_inv_def split: option.splits)
  note err = FocalGuiding_execute_errors [OF inv s, of scn rd h]
  show "resultError (FocalGuiding_execute scn rd (h, p)) \<noteq> Some (AssertionFailed ''mpScene'')"
    by (simp add: err)
  show "resultError (FocalGuiding_execute scn rd (h, p))
               \<noteq> Some (AssertionFailed ''mTracer.pProgram'')"
    by (simp add: err)
  show "resultError (FocalGuiding_execute scn rd (h, p))
               \<noteq> Some (AssertionFailed ''mTracer.pVars'')"
    by (simp add: err)
  show "\<forall>x. resultError (FocalGuiding_execute scn rd (h, p)) \<noteq> Some (NullDereference x)"
    by (simp add: err)
qed

theorem FocalGuiding_assertions_never_fail_witness:
  "FocalGuiding_reachable (snd fgBound0)
   \<and> FocalGuiding.mpScene (snd fgBound0) \<noteq> None
   \<and> assertsEnabled (fst fgBound0)
   \<and> pProgram (mTracer (snd fgBound0)) \<noteq> None
   \<and> pBindingTable (mTracer (snd fgBound0)) \<noteq> None
   \<and> resultError (FocalGuiding_execute scenes0 frame0 fgBound0)
        \<noteq> Some (AssertionFailed ''mpScene'')
   \<and> resultError (FocalGuiding_execute scenes0 frame0 fgBound0)
        \<noteq> Some (AssertionFailed ''mTracer.pProgram'')
   \<and> resultError (FocalGuiding_execute scenes0 frame0 fgBound0)
        \<noteq> Some (AssertionFailed ''mTracer.pVars'')"
proof -
  have reach: "FocalGuiding_reachable (snd fgBound0)"
    unfolding fgBound0_def fgNew_def
    by (rule FocalGuiding_reachable.afterSetScene) (rule FocalGuiding_reachable.constructed)
  from FocalGuiding_assertions_never_fail
         [OF reach, where scn = scenes0 and rd = frame0 and h = "fst fgBound0"]
  show ?thesis
    using reach by (simp add: fgBound0_facts)
qed

section \<open>Scene changes of FocalGuiding\<close>

text \<open>
  The first \<^verbatim>\<open>execute\<close> after a \<^verbatim>\<open>setScene\<close>, whatever the host did in between: a ray
  dispatch, if there is one, uses a program and variables created since that \<^verbatim>\<open>setScene\<close>
  began, and the variables were created for that program.
\<close>

lemma FocalGuiding_execute_after_setScene:
  assumes r: "FocalGuiding_setScene scn pScene (h, p) = (h', p')"
    and le: "nextHandle h' \<le> nextHandle h''"
  shows "list_all (raytraceSince (nextHandle h))
           (newEvents h'' (fst (resultState (FocalGuiding_execute scn' rd (h'', p')))))"
proof (cases pScene)
  case None
  with r have "FocalGuiding.mpScene p' = None"
    by (auto simp: FocalGuiding_setScene_None)
  then show ?thesis
    by (cases "getTexture rd ''color''")
      (simp_all add: FocalGuiding_execute_def clearOutputs_kOutputChannels resultState_def)
next
  case (Some s)
  from r Some have eq: "FocalGuiding_setScene scn (Some s) (h, p) = (h', p')"
    by simp
  note facts = FocalGuiding_setScene_Some [of scn s h p, unfolded eq, simplified]
  have inv: "FocalGuiding_inv p'"
    using FocalGuiding_setScene_inv [of scn pScene h p] r by simp
  have s: "FocalGuiding.mpScene p' = Some s" and v: "pVars (mTracer p') = None"
    and g: "map_option prog_id (pProgram (mTracer p')) = Some (Suc (nextHandle h))"
    and n: "nextHandle h' = Suc (Suc (nextHandle h))"
    using facts by simp_all
  show ?thesis
  proof (cases "is_set (getUpdates (scn' s)) GeometryChanged")
    case True
    with s show ?thesis
      by (simp add: FocalGuiding_execute_def resultState_def)
  next
    case False
    show ?thesis
    proof (cases "assertFails h'' (fst (getDefaultTextureDims rd) > 0
                     \<and> snd (getDefaultTextureDims rd) > 0)")
      case True
      from inv s False True
        FocalGuiding_execute_dims_assert
          [where p = p' and s = s and scn = scn' and h = h'' and rd = rd]
      show ?thesis
        by (auto simp: resultState_def)
    next
      case nofail: False
      from inv s False nofail
        FocalGuiding_execute_success
          [where p = p' and s = s and scn = scn' and h = h'' and rd = rd]
      show ?thesis
        using v g n le by (auto simp: resultState_def)
    qed
  qed
qed

text \<open>
  C4: every \<^verbatim>\<open>FocalGuiding::setScene\<close> call, with a null or non-null scene and whatever was
  bound before, leaves the variables null; the program and binding table are null when the
  new scene is null and otherwise were created during this call; the outcome does not depend
  on the program, binding table and variables held before the call. Hence the next
  \<^verbatim>\<open>execute\<close> cannot reach the old objects: any ray it dispatches uses a program and
  variables created since the \<^verbatim>\<open>setScene\<close> call began, and the variables belong to that
  program.
\<close>

theorem FocalGuiding_setScene_clears_pipeline:
  assumes r: "FocalGuiding_setScene scn pScene (h, p) = (h', p')"
  shows "pVars (mTracer p') = None
     \<and> (pScene = None \<longrightarrow> pProgram (mTracer p') = None \<and> pBindingTable (mTracer p') = None)
     \<and> (\<forall>g. pProgram (mTracer p') = Some g \<longrightarrow> nextHandle h \<le> prog_id g)
     \<and> (\<forall>t. pBindingTable (mTracer p') = Some t \<longrightarrow> nextHandle h \<le> sbt_id t)
     \<and> (\<forall>tr. FocalGuiding_setScene scn pScene (h, p\<lparr>mTracer := tr\<rparr>) = (h', p'))
     \<and> (\<forall>scn' rd h''. nextHandle h' \<le> nextHandle h'' \<longrightarrow>
           list_all (raytraceSince (nextHandle h))
             (newEvents h'' (fst (resultState (FocalGuiding_execute scn' rd (h'', p'))))))"
proof (intro conjI allI impI)
  show "pVars (mTracer p') = None"
  proof (cases pScene)
    case None
    with r show ?thesis by (auto simp: FocalGuiding_setScene_None)
  next
    case (Some s)
    from FocalGuiding_setScene_Some(8) [of scn s h p] r Some show ?thesis by simp
  qed
next
  assume "pScene = None"
  with r show "pProgram (mTracer p') = None" and "pBindingTable (mTracer p') = None"
    by (auto simp: FocalGuiding_setScene_None)
next
  fix g assume g: "pProgram (mTracer p') = Some g"
  show "nextHandle h \<le> prog_id g"
  proof (cases pScene)
    case None
    with r g show ?thesis by (auto simp: FocalGuiding_setScene_None)
  next
    case (Some s)
    from FocalGuiding_setScene_Some(9) [of scn s h p] r Some g show ?thesis by simp
  qed
next
  fix t assume t: "pBindingTable (mTracer p') = Some t"
  show "nextHandle h \<le> sbt_id t"
  proof (cases pScene)
    case None
    with r t show ?thesis by (auto simp: FocalGuiding_setScene_None)
  next
    case (Some s)
    from FocalGuiding_setScene_Some(11) [of scn s h p] r Some t show ?thesis by simp
  qed
next
  fix tr
  show "FocalGuiding_setScene scn pScene (h, p\<lparr>mTracer := tr\<rparr>) = (h', p')"
    using r by (simp add: FocalGuiding_setScene_tracer_independent)
next
  fix scn' rd and h'' :: Host
  assume "nextHandle h' \<le> nextHandle h''"
  with r show "list_all (raytraceSince (nextHandle h))
             (newEvents h'' (fst (resultState (FocalGuiding_execute scn' rd (h'', p')))))"
    by (rule FocalGuiding_execute_after_setScene)
qed

text \<open>The concrete pass after one rendered frame: its variables exist.\<close>

lemma fgRan0_facts:
  "FocalGuiding_inv (snd fgRan0)"
  "FocalGuiding.mpScene (snd fgRan0) = Some 0"
  "pVars (mTracer (snd fgRan0)) \<noteq> None"
  "pProgram (mTracer (snd fgRan0)) \<noteq> None"
proof -
  have geom: "\<not> is_set (getUpdates (scenes0 0)) GeometryChanged"
    by (simp add: is_set_def scenes0_def scene0_def)
  have dims: "\<not> assertFails (fst fgBound0)
      (fst (getDefaultTextureDims frame0) > 0 \<and> snd (getDefaultTextureDims frame0) > 0)"
    by (simp add: assertFails_def frame0_def)
  from FocalGuiding_execute_success
         [where p = "snd fgBound0" and s = 0 and scn = scenes0 and h = "fst fgBound0"
            and rd = frame0, OF fgBound0_facts(1,2) geom dims]
  show "FocalGuiding_inv (snd fgRan0)"
    and "FocalGuiding.mpScene (snd fgRan0) = Some 0"
    and "pVars (mTracer (snd fgRan0)) \<noteq> None"
    and "pProgram (mTracer (snd fgRan0)) \<noteq> None"
    by (auto simp: fgRan0_def resultState_def)
qed

theorem FocalGuiding_setScene_clears_pipeline_witness:
  "FocalGuiding.mpScene (snd fgRan0) = Some 0
   \<and> pProgram (mTracer (snd fgRan0)) \<noteq> None
   \<and> pVars (mTracer (snd fgRan0)) \<noteq> None
   \<and> pVars (mTracer (snd (FocalGuiding_setScene scenes0 None fgRan0))) = None
   \<and> pProgram (mTracer (snd (FocalGuiding_setScene scenes0 None fgRan0))) = None
   \<and> pBindingTable (mTracer (snd (FocalGuiding_setScene scenes0 None fgRan0))) = None
   \<and> pVars (mTracer (snd (FocalGuiding_setScene scenes0 (Some 1) fgRan0))) = None
   \<and> list_all (raytraceSince (nextHandle (fst fgRan0)))
        (newEvents (fst (FocalGuiding_setScene scenes0 (Some 1) fgRan0))
           (fst (resultState (FocalGuiding_execute scenes0 frame0
                   (FocalGuiding_setScene scenes0 (Some 1) fgRan0)))))"
proof -
  have r0: "FocalGuiding_setScene scenes0 None (fst fgRan0, snd fgRan0) =
             (fst (FocalGuiding_setScene scenes0 None fgRan0),
              snd (FocalGuiding_setScene scenes0 None fgRan0))"
    by simp
  have r1: "FocalGuiding_setScene scenes0 (Some 1) (fst fgRan0, snd fgRan0) =
             (fst (FocalGuiding_setScene scenes0 (Some 1) fgRan0),
              snd (FocalGuiding_setScene scenes0 (Some 1) fgRan0))"
    by simp
  note detached = FocalGuiding_setScene_clears_pipeline [OF r0]
  note replaced = FocalGuiding_setScene_clears_pipeline [OF r1]
  from replaced have "list_all (raytraceSince (nextHandle (fst fgRan0)))
        (newEvents (fst (FocalGuiding_setScene scenes0 (Some 1) fgRan0))
           (fst (resultState (FocalGuiding_execute scenes0 frame0
                   (fst (FocalGuiding_setScene scenes0 (Some 1) fgRan0),
                    snd (FocalGuiding_setScene scenes0 (Some 1) fgRan0))))))"
    by blast
  with detached replaced show ?thesis
    by (simp add: fgRan0_facts)
qed

section \<open>Warnings of FocalGuiding\<close>

text \<open>
  C7: when \<^verbatim>\<open>setScene\<close> is given a scene with custom-primitive geometry, it logs a warning
  and goes on to build the binding table and the program as for any other scene. When
  \<^verbatim>\<open>execute\<close> finds depth-of-field active (aperture radius above 0) and the optional
  \<^verbatim>\<open>viewW\<close> input unconnected, it logs a warning and goes on: the call returns normally
  and the ray dispatch follows the warning.
\<close>

theorem FocalGuiding_warnings_continue:
  "(hasGeometryType (scn s) Custom \<longrightarrow>
      newEvents h (fst (FocalGuiding_setScene scn (Some s) (h, p))) =
        [LogWarning ''DirectRayTracer: This render pass does not support custom primitives.'' []]
      \<and> FocalGuiding.mpScene (snd (FocalGuiding_setScene scn (Some s) (h, p))) = Some s
      \<and> pProgram (mTracer (snd (FocalGuiding_setScene scn (Some s) (h, p)))) \<noteq> None
      \<and> pBindingTable (mTracer (snd (FocalGuiding_setScene scn (Some s) (h, p)))) \<noteq> None)
   \<and> (FocalGuiding_inv p \<and> FocalGuiding.mpScene p = Some s
        \<and> \<not> is_set (getUpdates (scn s)) GeometryChanged
        \<and> 0 < getApertureRadius (scn s) \<and> getTexture rd kInputViewDir = None
        \<and> \<not> assertFails h (fst (getDefaultTextureDims rd) > 0
                                \<and> snd (getDefaultTextureDims rd) > 0) \<longrightarrow>
        (\<exists>h' p' g v. FocalGuiding_execute scn rd (h, p) = Inr (h', p')
           \<and> newEvents h h' =
               (if useEmissiveLights (scn s) then [GetLightCollection s] else [])
               @ [LogWarning ''Depth-of-field requires the '{}' input. Expect incorrect shading.''
                    [kInputViewDir],
                  Raytrace s g v
                    (fst (getDefaultTextureDims rd), snd (getDefaultTextureDims rd), 1)]))"
proof (intro conjI impI)
  assume c: "hasGeometryType (scn s) Custom"
  note facts = FocalGuiding_setScene_Some [of scn s h p]
  from c facts(2) show "newEvents h (fst (FocalGuiding_setScene scn (Some s) (h, p))) =
        [LogWarning ''DirectRayTracer: This render pass does not support custom primitives.'' []]"
    by simp
  from facts(5) show "FocalGuiding.mpScene (snd (FocalGuiding_setScene scn (Some s) (h, p))) = Some s" .
  from facts(9) show "pProgram (mTracer (snd (FocalGuiding_setScene scn (Some s) (h, p)))) \<noteq> None"
    by auto
  from facts(11)
  show "pBindingTable (mTracer (snd (FocalGuiding_setScene scn (Some s) (h, p)))) \<noteq> None"
    by auto
next
  assume a: "FocalGuiding_inv p \<and> FocalGuiding.mpScene p = Some s
        \<and> \<not> is_set (getUpdates (scn s)) GeometryChanged
        \<and> 0 < getApertureRadius (scn s) \<and> getTexture rd kInputViewDir = None
        \<and> \<not> assertFails h (fst (getDefaultTextureDims rd) > 0
                                \<and> snd (getDefaultTextureDims rd) > 0)"
  with FocalGuiding_execute_success [where p = p and s = s and scn = scn and h = h and rd = rd]
  obtain h' p' g v where r: "FocalGuiding_execute scn rd (h, p) = Inr (h', p')"
    and ev: "events h' = events h
         @ (if useEmissiveLights (scn s) then [GetLightCollection s] else [])
         @ (if getApertureRadius (scn s) > 0 \<and> getTexture rd kInputViewDir = None
            then [LogWarning ''Depth-of-field requires the '{}' input. Expect incorrect shading.''
                    [kInputViewDir]] else [])
         @ [Raytrace s g v (fst (getDefaultTextureDims rd), snd (getDefaultTextureDims rd), 1)]"
    by blast
  from ev a have "newEvents h h' =
               (if useEmissiveLights (scn s) then [GetLightCollection s] else [])
               @ [LogWarning ''Depth-of-field requires the '{}' input. Expect incorrect shading.''
                    [kInputViewDir],
                  Raytrace s g v
                    (fst (getDefaultTextureDims rd), snd (getDefaultTextureDims rd), 1)]"
    by (simp add: newEvents_def)
  with r show "\<exists>h' p' g v. FocalGuiding_execute scn rd (h, p) = Inr (h', p')
           \<and> newEvents h h' =
               (if useEmissiveLights (scn s) then [GetLightCollection s] else [])
               @ [LogWarning ''Depth-of-field requires the '{}' input. Expect incorrect shading.''
                    [kInputViewDir],
                  Raytrace s g v
                    (fst (getDefaultTextureDims rd), snd (getDefaultTextureDims rd), 1)]"
    by blast
qed

text \<open>The concrete pass bound to scene 1.\<close>

lemma fgBound1_facts:
  "FocalGuiding_inv (snd fgBound1)"
  "FocalGuiding.mpScene (snd fgBound1) = Some 1"
  "assertsEnabled (fst fgBound1)"
     apply (simp add: fgBound1_def fgNew_def FocalGuiding_setScene_inv)
  using FocalGuiding_setScene_Some [of scenes0 1 host0 "FocalGuiding_construct 1"]
    by (simp_all add: fgBound1_def fgNew_def host0_def)

theorem FocalGuiding_warnings_continue_witness:
  "hasGeometryType (scenes0 1) Custom
   \<and> newEvents host0 (fst fgBound1) =
        [LogWarning ''DirectRayTracer: This render pass does not support custom primitives.'' []]
   \<and> pProgram (mTracer (snd fgBound1)) \<noteq> None
   \<and> FocalGuiding_inv (snd fgBound1) \<and> FocalGuiding.mpScene (snd fgBound1) = Some 1
   \<and> \<not> is_set (getUpdates (scenes0 1)) GeometryChanged
   \<and> 0 < getApertureRadius (scenes0 1) \<and> getTexture frame0 kInputViewDir = None
   \<and> (\<exists>h' p' g v. FocalGuiding_execute scenes0 frame0 fgBound1 = Inr (h', p')
         \<and> newEvents (fst fgBound1) h' =
              [GetLightCollection 1,
               LogWarning ''Depth-of-field requires the '{}' input. Expect incorrect shading.''
                 [''viewW''],
               Raytrace 1 g v (1920, 1080, 1)])"
proof -
  have custom: "hasGeometryType (scenes0 1) Custom"
    by (simp add: hasGeometryType_def scenes0_def scene1_def scene0_def)
  have pre: "FocalGuiding_inv (snd fgBound1) \<and> FocalGuiding.mpScene (snd fgBound1) = Some 1
        \<and> \<not> is_set (getUpdates (scenes0 1)) GeometryChanged
        \<and> 0 < getApertureRadius (scenes0 1) \<and> getTexture frame0 kInputViewDir = None
        \<and> \<not> assertFails (fst fgBound1) (fst (getDefaultTextureDims frame0) > 0
                                \<and> snd (getDefaultTextureDims frame0) > 0)"
    by (simp add: fgBound1_facts is_set_def scenes0_def scene1_def scene0_def frame0_def
        kInputViewDir_def assertFails_def)
  from FocalGuiding_warnings_continue
         [where scn = scenes0 and s = 1 and h = host0 and p = "FocalGuiding_construct 1"
            and rd = frame0]
       FocalGuiding_warnings_continue
         [where scn = scenes0 and s = 1 and h = "fst fgBound1" and p = "snd fgBound1"
            and rd = frame0]
       custom pre
  show ?thesis
    by (simp add: fgBound1_def fgNew_def scenes0_def scene1_def scene0_def frame0_def
        kInputViewDir_def)
qed

section \<open>The raster passes: the shape of each call\<close>

text \<open>The 32-bit loop counter does not wrap below the loop bound.\<close>

lemma unat_inc: "i < (n::uint) \<Longrightarrow> unat (i + 1) = Suc (unat i)"
proof -
  assume less: "i < n"
  have "1 + i \<noteq> 0"
  proof
    assume "1 + i = 0"
    then have "i = - 1" by (simp add: add_eq_0_iff)
    with less show False by simp
  qed
  then show ?thesis
    using unatSuc [of i] by (simp add: add.commute)
qed

lemma printRay_events:
  "printRayLine l (printRayIndex i h) = h\<lparr>events := events h @ rayPrintfs i l\<rparr>"
  by (simp add: printRayLine_def printRayIndex_def rayPrintfs_def emit_def Let_def)

text \<open>
  The loop over \<open>n\<close> records, when the vector holds at least \<open>n\<close>: it ends without fault
  and has made the four \<^verbatim>\<open>printf\<close> calls for each record from \<open>i\<close> on, in order.
\<close>

lemma generateRaysLoop_ok:
  "unat n \<le> length ls \<Longrightarrow> i \<le> n \<Longrightarrow>
   generateRaysLoop ls n i h =
     Inr (h\<lparr>events := events h @
            concat (map (\<lambda>k. rayPrintfs (word_of_nat k) (ls ! k)) [unat i..<unat n])\<rparr>)"
proof (induction ls n i h rule: generateRaysLoop.induct)
  case (1 rayNodes n i h)
  show ?case
  proof (cases "i < n")
    case True
    then have lt: "unat i < unat n"
      by (simp add: word_less_nat_alt)
    with "1.prems" have inrange: "unat i < length rayNodes"
      by simp
    from True have suc: "unat (i + 1) = Suc (unat i)"
      by (rule unat_inc)
    with lt have "i + 1 \<le> n"
      by (simp add: word_le_nat_alt)
    with "1.IH" [OF True inrange] "1.prems"
    have "generateRaysLoop rayNodes n (i + 1)
            (printRayLine (rayNodes ! unat i) (printRayIndex i h)) =
          Inr ((printRayLine (rayNodes ! unat i) (printRayIndex i h))
                 \<lparr>events := events (printRayLine (rayNodes ! unat i) (printRayIndex i h)) @
                    concat (map (\<lambda>k. rayPrintfs (word_of_nat k) (rayNodes ! k))
                              [unat (i + 1)..<unat n])\<rparr>)"
      by simp
    with True inrange lt suc show ?thesis
      by (subst generateRaysLoop.simps) (simp add: printRay_events upt_conv_Cons)
  next
    case False
    with "1.prems" have "i = n" by simp
    then show ?thesis
      by (subst generateRaysLoop.simps) simp
  qed
qed

lemma GuidedRayViz_setScene_ok:
  assumes "GuidedRayViz.mpProgram p = Some g"
  shows "GuidedRayViz_setScene scn pScene (h, p) =
     Inr (h\<lparr>nextHandle := Suc (nextHandle h)\<rparr>,
          p\<lparr>GuidedRayViz.mpScene := pScene,
            GuidedRayViz.mpProgram :=
              Some (case pScene of None \<Rightarrow> g
                    | Some s \<Rightarrow> addDefines (getSceneDefines (scn s)) g),
            GuidedRayViz.mpVars :=
              Some \<lparr>vars_id = nextHandle h, vars_program = prog_id g,
                    vars_bindingTable = None, vars_values = Map.empty\<rparr>\<rparr>)"
  using assms
  by (cases pScene) (simp_all add: GuidedRayViz_setScene_def ProgramVars_create_def alloc_def)

lemma MyTestPass_setScene_ok:
  assumes "MyTestPass.mpProgram p = Some g"
  shows "MyTestPass_setScene scn pScene (h, p) =
     Inr (h\<lparr>nextHandle := Suc (nextHandle h)\<rparr>,
          p\<lparr>MyTestPass.mpScene := pScene,
            MyTestPass.mpProgram :=
              Some (case pScene of None \<Rightarrow> g
                    | Some s \<Rightarrow> addDefines (getSceneDefines (scn s)) g),
            MyTestPass.mpVars :=
              Some \<lparr>vars_id = nextHandle h, vars_program = prog_id g,
                    vars_bindingTable = None, vars_values = Map.empty\<rparr>\<rparr>)"
  using assms
  by (cases pScene) (simp_all add: MyTestPass_setScene_def ProgramVars_create_def alloc_def)

lemma GuidedRayViz_draw_ok:
  assumes "GuidedRayViz.mpGraphicsState p = Some gs" and "GuidedRayViz.mpScene p = Some s"
    and "GuidedRayViz.mpVars p = Some v"
  shows "GuidedRayViz_draw rd (h, p) =
     Inr (h\<lparr>nextHandle := Suc (nextHandle h),
            events := events h @
              [ClearFbo \<lparr>fbo_id = nextHandle h, fbo_colorTargets = [getTexture rd ''output'']\<rparr>
                 (0, 0, 0, 1) 1 0,
               Rasterize s
                 (gs\<lparr>gs_fbo := Some \<lparr>fbo_id = nextHandle h,
                                      fbo_colorTargets = [getTexture rd ''output'']\<rparr>\<rparr>)
                 (setVar [''PerFrameCB'', ''gColor''] (Float4Value (0, 1, 0, 1)) v)
                 (GuidedRayViz.mpRasterState p) (GuidedRayViz.mpRasterState p)]\<rparr>,
          p\<lparr>GuidedRayViz.mpGraphicsState :=
              Some (gs\<lparr>gs_fbo := Some \<lparr>fbo_id = nextHandle h,
                                         fbo_colorTargets = [getTexture rd ''output'']\<rparr>\<rparr>),
            GuidedRayViz.mpVars :=
              Some (setVar [''PerFrameCB'', ''gColor''] (Float4Value (0, 1, 0, 1)) v)\<rparr>)"
  using assms
  by (simp add: GuidedRayViz_draw_def Fbo_create_def alloc_def emit_def Let_def)

lemma MyTestPass_execute_ok:
  assumes "MyTestPass.mpGraphicsState p = Some gs" and "MyTestPass.mpScene p = Some s"
    and "MyTestPass.mpVars p = Some v"
  shows "MyTestPass_execute rd (h, p) =
     Inr (h\<lparr>nextHandle := Suc (nextHandle h),
            events := events h @
              [ClearFbo \<lparr>fbo_id = nextHandle h, fbo_colorTargets = [getTexture rd ''output'']\<rparr>
                 (0, 0, 0, 1) 1 0,
               Rasterize s
                 (gs\<lparr>gs_fbo := Some \<lparr>fbo_id = nextHandle h,
                                      fbo_colorTargets = [getTexture rd ''output'']\<rparr>\<rparr>)
                 (setVar [''PerFrameCB'', ''gColor''] (Float4Value (0, 1, 0, 1)) v)
                 (MyTestPass.mpRasterState p) (MyTestPass.mpRasterState p)]\<rparr>,
          p\<lparr>MyTestPass.mpGraphicsState :=
              Some (gs\<lparr>gs_fbo := Some \<lparr>fbo_id = nextHandle h,
                                         fbo_colorTargets = [getTexture rd ''output'']\<rparr>\<rparr>),
            MyTestPass.mpVars :=
              Some (setVar [''PerFrameCB'', ''gColor''] (Float4Value (0, 1, 0, 1)) v)\<rparr>)"
  using assms
  by (simp add: MyTestPass_execute_def Fbo_create_def alloc_def emit_def Let_def)

section \<open>The shared-buffer handoff of GuidedRayViz\<close>

text \<open>
  \<^verbatim>\<open>generateRaysGeometry\<close> on a buffer that holds the records asked for: it returns without
  fault, has printed each record, and leaves the pass unchanged.
\<close>

lemma generateRaysGeometry_ok:
  assumes "GuidedRayViz.mGuidedRays p = Some buf"
    and "holdsLines buf (unat (GuidedRayViz.mGuidedRaysSize p))"
  shows "generateRaysGeometry (h, p) =
     Inr (h\<lparr>events := events h @
            concat (map (\<lambda>k. rayPrintfs (word_of_nat k) (bufferLines buf ! k))
                      [0..<unat (GuidedRayViz.mGuidedRaysSize p)])\<rparr>, p)"
proof -
  from assms(2) obtain ls where ls: "buf_data buf = GuidedRayLines ls"
    and len: "unat (GuidedRayViz.mGuidedRaysSize p) \<le> length ls"
    by (auto simp: holdsLines_def split: BufferData.splits)
  have loop: "generateRaysLoop (take (unat (GuidedRayViz.mGuidedRaysSize p)) ls)
                (GuidedRayViz.mGuidedRaysSize p) 0 h =
     Inr (h\<lparr>events := events h @
            concat (map (\<lambda>k. rayPrintfs (word_of_nat k)
                                (take (unat (GuidedRayViz.mGuidedRaysSize p)) ls ! k))
                      [unat (0::uint)..<unat (GuidedRayViz.mGuidedRaysSize p)])\<rparr>)"
    using len by (intro generateRaysLoop_ok) simp_all
  have same: "map (\<lambda>k. rayPrintfs (word_of_nat k)
                          (take (unat (GuidedRayViz.mGuidedRaysSize p)) ls ! k))
                [0..<unat (GuidedRayViz.mGuidedRaysSize p)] =
              map (\<lambda>k. rayPrintfs (word_of_nat k) (ls ! k))
                [0..<unat (GuidedRayViz.mGuidedRaysSize p)]"
    by (rule map_cong) simp_all
  from assms(1) ls len loop same show ?thesis
    by (simp add: generateRaysGeometry_def getElements_def bufferLines_def)
qed

text \<open>
  \<^verbatim>\<open>GuidedRayViz::execute\<close> with a scene bound, when the dictionary holds the three entries
  and the buffer, if it is read, holds the records asked for.
\<close>

lemma GuidedRayViz_execute_shape:
  assumes gs: "GuidedRayViz.mpGraphicsState p = Some gs" and v: "GuidedRayViz.mpVars p = Some v"
    and scene: "GuidedRayViz.mpScene p = Some s"
    and size: "dictionary h ''gGuidedRaysSize'' = Some (UintEntry n)"
    and rays: "dictionary h ''gGuidedRays'' = Some (BufferEntry b)"
    and flag: "dictionary h ''gComputeRays'' = Some (BoolEntry c)"
    and held: "\<forall>buf. c \<and> b = Some buf \<longrightarrow> holdsLines buf (unat n)"
  shows "GuidedRayViz_execute rd (h, p) =
     Inr (h\<lparr>nextHandle := Suc (nextHandle h),
            events := events h @
              (case b of
                 None \<Rightarrow> []
               | Some buf \<Rightarrow>
                   if c then concat (map (\<lambda>k. rayPrintfs (word_of_nat k) (bufferLines buf ! k))
                                       [0..<unat n])
                   else []) @
              [ClearFbo \<lparr>fbo_id = nextHandle h, fbo_colorTargets = [getTexture rd ''output'']\<rparr>
                 (0, 0, 0, 1) 1 0,
               Rasterize s
                 (gs\<lparr>gs_fbo := Some \<lparr>fbo_id = nextHandle h,
                                      fbo_colorTargets = [getTexture rd ''output'']\<rparr>\<rparr>)
                 (setVar [''PerFrameCB'', ''gColor''] (Float4Value (0, 1, 0, 1)) v)
                 (GuidedRayViz.mpRasterState p) (GuidedRayViz.mpRasterState p)]\<rparr>,
          p\<lparr>GuidedRayViz.mGuidedRaysSize := n, GuidedRayViz.mGuidedRays := b,
            GuidedRayViz.mComputeRays := c,
            GuidedRayViz.mpGraphicsState :=
              Some (gs\<lparr>gs_fbo := Some \<lparr>fbo_id = nextHandle h,
                                         fbo_colorTargets = [getTexture rd ''output'']\<rparr>\<rparr>),
            GuidedRayViz.mpVars :=
              Some (setVar [''PerFrameCB'', ''gColor''] (Float4Value (0, 1, 0, 1)) v)\<rparr>)"
proof -
  let ?p3 = "p\<lparr>GuidedRayViz.mGuidedRaysSize := n, GuidedRayViz.mGuidedRays := b,
               GuidedRayViz.mComputeRays := c\<rparr>"
  have gs3: "GuidedRayViz.mpGraphicsState ?p3 = Some gs"
    and s3: "GuidedRayViz.mpScene ?p3 = Some s" and v3: "GuidedRayViz.mpVars ?p3 = Some v"
    using gs scene v by simp_all
  note draw = GuidedRayViz_draw_ok [OF gs3 s3 v3]
  show ?thesis
  proof (cases "c \<and> b \<noteq> None")
    case True
    then obtain buf where b: "b = Some buf" and c: c
      by auto
    with held have "holdsLines buf (unat n)"
      by simp
    then have "generateRaysGeometry (h, ?p3) =
       Inr (h\<lparr>events := events h @
            concat (map (\<lambda>k. rayPrintfs (word_of_nat k) (bufferLines buf ! k))
                      [0..<unat n])\<rparr>, ?p3)"
      using generateRaysGeometry_ok [of ?p3 buf h] b by simp
    with scene size rays flag b c
    have "GuidedRayViz_execute rd (h, p) =
       GuidedRayViz_draw rd
         (h\<lparr>events := events h @
            concat (map (\<lambda>k. rayPrintfs (word_of_nat k) (bufferLines buf ! k))
                      [0..<unat n])\<rparr>, ?p3)"
      by (simp add: GuidedRayViz_execute_def dictUint_def dictBuffer_def dictBool_def)
    then show ?thesis
      unfolding draw using b c by simp
  next
    case False
    with scene size rays flag
    have "GuidedRayViz_execute rd (h, p) = GuidedRayViz_draw rd (h, ?p3)"
      by (auto simp: GuidedRayViz_execute_def dictUint_def dictBuffer_def dictBool_def)
    then show ?thesis
      unfolding draw using False by (auto split: option.splits)
  qed
qed

text \<open>The definitions to unfold when the raster passes are run on the concrete objects.\<close>

lemmas raster_eval =
  GuidedRayViz_construct_def MyTestPass_construct_def Program_createGraphics_def
  RasterizerState_create_def GraphicsState_create_def ProgramVars_create_def alloc_def
  emptyProgramDesc_def host0_def Let_def GuidedRayViz_setScene_def MyTestPass_setScene_def
  resultState_def addDefines_def

text \<open>The concrete GuidedRayViz pass bound to scene 0.\<close>

lemma vizBound0_facts:
  "GuidedRayViz.mpScene (snd vizBound0) = Some 0"
  "GuidedRayViz_inv (snd vizBound0)"
  "events (fst vizBound0) = []"
  "nextHandle (fst vizBound0) = 14"
  "GuidedRayViz.mpRayScene (snd vizBound0) = None"
  "GuidedRayViz.mpGraphicsState (snd vizBound0) \<noteq> None"
  "GuidedRayViz.mpVars (snd vizBound0) \<noteq> None"
  by (simp_all add: vizBound0_def vizNew_def GuidedRayViz_inv_def raster_eval)

lemma isDraw_rayPrintfs [simp]: "filter isDraw (rayPrintfs i l) = []"
  by (simp add: rayPrintfs_def)

lemma isDraw_concat_rayPrintfs [simp]:
  "filter isDraw (concat (map (\<lambda>k. rayPrintfs (f k) (g k)) ks)) = []"
  by (induction ks) simp_all

lemma vizFrame_facts:
  "GuidedRayViz.mpScene (snd vizFlagClear) = Some 0"
  "GuidedRayViz_inv (snd vizFlagClear)"
  "events (fst vizFlagClear) = []"
  "dictionary (fst vizFlagClear) = dictRays 2 (Some lineBuffer0) False"
  "GuidedRayViz.mpScene (snd vizFlagSet) = Some 0"
  "GuidedRayViz_inv (snd vizFlagSet)"
  "events (fst vizFlagSet) = []"
  "dictionary (fst vizFlagSet) = dictRays 2 (Some lineBuffer0) True"
  "GuidedRayViz.mpScene (snd vizCountZero) = Some 0"
  "GuidedRayViz_inv (snd vizCountZero)"
  "events (fst vizCountZero) = []"
  "dictionary (fst vizCountZero) = dictRays 0 (Some lineBuffer0) True"
  "snd vizFlagSet = snd vizFlagClear"
  "nextHandle (fst vizFlagSet) = nextHandle (fst vizFlagClear)"
  by (simp_all add: vizFlagClear_def vizFlagSet_def vizCountZero_def vizBound0_facts)

text \<open>The draw calls of such an \<^verbatim>\<open>execute\<close>: one rasterisation of the bound scene.\<close>

lemma GuidedRayViz_execute_draws:
  assumes gs: "GuidedRayViz.mpGraphicsState p = Some gs" and v: "GuidedRayViz.mpVars p = Some v"
    and scene: "GuidedRayViz.mpScene p = Some s"
    and size: "dictionary h ''gGuidedRaysSize'' = Some (UintEntry n)"
    and rays: "dictionary h ''gGuidedRays'' = Some (BufferEntry b)"
    and flag: "dictionary h ''gComputeRays'' = Some (BoolEntry c)"
    and held: "\<forall>buf. c \<and> b = Some buf \<longrightarrow> holdsLines buf (unat n)"
  shows "resultError (GuidedRayViz_execute rd (h, p)) = None"
    and "filter isDraw (events (fst (resultState (GuidedRayViz_execute rd (h, p))))) =
       filter isDraw (events h) @
       [Rasterize s
          (gs\<lparr>gs_fbo := Some \<lparr>fbo_id = nextHandle h,
                               fbo_colorTargets = [getTexture rd ''output'']\<rparr>\<rparr>)
          (setVar [''PerFrameCB'', ''gColor''] (Float4Value (0, 1, 0, 1)) v)
          (GuidedRayViz.mpRasterState p) (GuidedRayViz.mpRasterState p)]"
  unfolding GuidedRayViz_execute_shape [OF assms]
  by (simp_all add: resultError_def resultState_def split: option.splits)

text \<open>
  C3, as the claim states it, fails: with a scene bound, two line records on offer and the
  recompute flag cleared, the pass still issues a draw call (it rasterises the bound scene);
  and with the flag set the draw call is the very same one, so the records read from the
  buffer are not turned into anything that is drawn.
\<close>

theorem GuidedRayViz_execute_flag_clear_counterexample:
  "GuidedRayViz.mpScene (snd vizFlagClear) = Some 0
   \<and> dictionary (fst vizFlagClear) ''gComputeRays'' = Some (BoolEntry False)
   \<and> resultError (GuidedRayViz_execute frame0 vizFlagClear) = None
   \<and> length (filter isDraw
         (events (fst (resultState (GuidedRayViz_execute frame0 vizFlagClear))))) = 1
   \<and> filter isDraw (events (fst (resultState (GuidedRayViz_execute frame0 vizFlagSet))))
       = filter isDraw (events (fst (resultState (GuidedRayViz_execute frame0 vizFlagClear))))"
proof -
  obtain gs v where gs: "GuidedRayViz.mpGraphicsState (snd vizFlagClear) = Some gs"
    and v: "GuidedRayViz.mpVars (snd vizFlagClear) = Some v"
    using vizBound0_facts(6,7) by (auto simp: vizFlagClear_def)
  have clear: "vizFlagClear = (fst vizFlagClear, snd vizFlagClear)"
    by simp
  have "vizFlagSet = (fst vizFlagSet, snd vizFlagSet)"
    by simp
  then have set: "vizFlagSet = (fst vizFlagSet, snd vizFlagClear)"
    by (simp only: vizFrame_facts(13))
  have "resultError (GuidedRayViz_execute frame0 (fst vizFlagClear, snd vizFlagClear)) = None"
    by (rule GuidedRayViz_execute_draws(1)
          [where n = 2 and b = "Some lineBuffer0" and c = False, OF gs v])
      (simp_all add: vizFrame_facts dictRays_def)
  moreover
  have "filter isDraw (events (fst (resultState
          (GuidedRayViz_execute frame0 (fst vizFlagClear, snd vizFlagClear))))) =
       filter isDraw (events (fst vizFlagClear)) @
       [Rasterize 0
          (gs\<lparr>gs_fbo := Some \<lparr>fbo_id = nextHandle (fst vizFlagClear),
                               fbo_colorTargets = [getTexture frame0 ''output'']\<rparr>\<rparr>)
          (setVar [''PerFrameCB'', ''gColor''] (Float4Value (0, 1, 0, 1)) v)
          (GuidedRayViz.mpRasterState (snd vizFlagClear))
          (GuidedRayViz.mpRasterState (snd vizFlagClear))]"
    by (rule GuidedRayViz_execute_draws(2)
          [where n = 2 and b = "Some lineBuffer0" and c = False, OF gs v])
      (simp_all add: vizFrame_facts dictRays_def)
  moreover
  have "filter isDraw (events (fst (resultState
          (GuidedRayViz_execute frame0 (fst vizFlagSet, snd vizFlagClear))))) =
       filter isDraw (events (fst vizFlagSet)) @
       [Rasterize 0
          (gs\<lparr>gs_fbo := Some \<lparr>fbo_id = nextHandle (fst vizFlagSet),
                               fbo_colorTargets = [getTexture frame0 ''output'']\<rparr>\<rparr>)
          (setVar [''PerFrameCB'', ''gColor''] (Float4Value (0, 1, 0, 1)) v)
          (GuidedRayViz.mpRasterState (snd vizFlagClear))
          (GuidedRayViz.mpRasterState (snd vizFlagClear))]"
    by (rule GuidedRayViz_execute_draws(2)
          [where n = 2 and b = "Some lineBuffer0" and c = True, OF gs v])
      (simp_all add: vizFrame_facts dictRays_def holdsLines_def lineBuffer0_def)
  ultimately show ?thesis
    using clear set by (simp add: vizFrame_facts dictRays_def)
qed

text \<open>
  C3, amended: in every \<^verbatim>\<open>GuidedRayViz::execute\<close> call with a non-null scene, where the
  dictionary holds the count, the buffer handle and the recompute flag, and the buffer holds
  the records that are read: the pass reads the \<open>count\<close> line records and prints each of them
  (four \<^verbatim>\<open>printf\<close> calls per record, in order) before the frame's clear and draw call if and
  only if the flag is set and the buffer handle is present. No geometry is built from them
  (\<^verbatim>\<open>mpRayScene\<close> stays as it was). In either case the pass then clears the frame buffer
  of its output and issues exactly one draw call, the rasterisation of the bound scene. With
  \<open>count = 0\<close> the read completes without fault and nothing is printed.
\<close>

theorem GuidedRayViz_execute_reads_lines:
  assumes inv: "GuidedRayViz_inv p" and scene: "GuidedRayViz.mpScene p = Some s"
    and size: "dictionary h ''gGuidedRaysSize'' = Some (UintEntry n)"
    and rays: "dictionary h ''gGuidedRays'' = Some (BufferEntry b)"
    and flag: "dictionary h ''gComputeRays'' = Some (BoolEntry c)"
    and held: "\<forall>buf. c \<and> b = Some buf \<longrightarrow> holdsLines buf (unat n)"
  shows "\<exists>h' p' fbo gs v. GuidedRayViz_execute rd (h, p) = Inr (h', p')
     \<and> newEvents h h' =
         (case b of
            None \<Rightarrow> []
          | Some buf \<Rightarrow>
              if c then concat (map (\<lambda>k. rayPrintfs (word_of_nat k) (bufferLines buf ! k))
                                  [0..<unat n])
              else [])
         @ [ClearFbo fbo (0, 0, 0, 1) 1 0,
            Rasterize s gs v (GuidedRayViz.mpRasterState p) (GuidedRayViz.mpRasterState p)]
     \<and> (n = 0 \<longrightarrow> newEvents h h' =
           [ClearFbo fbo (0, 0, 0, 1) 1 0,
            Rasterize s gs v (GuidedRayViz.mpRasterState p) (GuidedRayViz.mpRasterState p)])
     \<and> fbo_colorTargets fbo = [getTexture rd ''output'']
     \<and> GuidedRayViz.mpScene p' = Some s
     \<and> GuidedRayViz.mpRayScene p' = GuidedRayViz.mpRayScene p"
proof -
  from inv scene obtain gs v where gs: "GuidedRayViz.mpGraphicsState p = Some gs"
    and v: "GuidedRayViz.mpVars p = Some v"
    by (auto simp: GuidedRayViz_inv_def split: option.splits)
  show ?thesis
    unfolding GuidedRayViz_execute_shape [OF gs v scene size rays flag held]
    using scene by (auto simp: newEvents_def split: option.splits)
qed

theorem GuidedRayViz_execute_reads_lines_witness:
  "GuidedRayViz_inv (snd vizFlagSet) \<and> GuidedRayViz.mpScene (snd vizFlagSet) = Some 0
   \<and> dictionary (fst vizFlagSet) = dictRays 2 (Some lineBuffer0) True
   \<and> holdsLines lineBuffer0 (unat (2 :: uint))
   \<and> (\<exists>h' p' fbo gs v. GuidedRayViz_execute frame0 vizFlagSet = Inr (h', p')
         \<and> newEvents (fst vizFlagSet) h' =
              rayPrintfs 0 line0 @ rayPrintfs 1 line0
              @ [ClearFbo fbo (0, 0, 0, 1) 1 0,
                 Rasterize 0 gs v (GuidedRayViz.mpRasterState (snd vizFlagSet))
                   (GuidedRayViz.mpRasterState (snd vizFlagSet))])
   \<and> dictionary (fst vizCountZero) = dictRays 0 (Some lineBuffer0) True
   \<and> (\<exists>h' p' fbo gs v. GuidedRayViz_execute frame0 vizCountZero = Inr (h', p')
         \<and> newEvents (fst vizCountZero) h' =
              [ClearFbo fbo (0, 0, 0, 1) 1 0,
               Rasterize 0 gs v (GuidedRayViz.mpRasterState (snd vizCountZero))
                 (GuidedRayViz.mpRasterState (snd vizCountZero))])"
proof -
  have held2: "\<forall>buf. True \<and> Some lineBuffer0 = Some buf \<longrightarrow> holdsLines buf (unat (2::uint))"
    and held0: "\<forall>buf. True \<and> Some lineBuffer0 = Some buf \<longrightarrow> holdsLines buf (unat (0::uint))"
    by (simp_all add: holdsLines_def lineBuffer0_def)
  have two: "[0..<2] = [0, 1::nat]"
    by (simp add: upt_rec)
  from GuidedRayViz_execute_reads_lines
         [where p = "snd vizFlagSet" and h = "fst vizFlagSet" and s = 0 and n = 2
            and b = "Some lineBuffer0" and c = True and rd = frame0,
          OF vizFrame_facts(6) vizFrame_facts(5) _ _ _ held2]
  have "\<exists>h' p' fbo gs v. GuidedRayViz_execute frame0 vizFlagSet = Inr (h', p')
         \<and> newEvents (fst vizFlagSet) h' =
              rayPrintfs 0 line0 @ rayPrintfs 1 line0
              @ [ClearFbo fbo (0, 0, 0, 1) 1 0,
                 Rasterize 0 gs v (GuidedRayViz.mpRasterState (snd vizFlagSet))
                   (GuidedRayViz.mpRasterState (snd vizFlagSet))]"
    by (auto simp: vizFrame_facts(5-8) dictRays_def two bufferLines_def lineBuffer0_def)
  moreover
  from GuidedRayViz_execute_reads_lines
         [where p = "snd vizCountZero" and h = "fst vizCountZero" and s = 0 and n = 0
            and b = "Some lineBuffer0" and c = True and rd = frame0,
          OF vizFrame_facts(10) vizFrame_facts(9) _ _ _ held0]
  have "\<exists>h' p' fbo gs v. GuidedRayViz_execute frame0 vizCountZero = Inr (h', p')
         \<and> newEvents (fst vizCountZero) h' =
              [ClearFbo fbo (0, 0, 0, 1) 1 0,
               Rasterize 0 gs v (GuidedRayViz.mpRasterState (snd vizCountZero))
                 (GuidedRayViz.mpRasterState (snd vizCountZero))]"
    by (auto simp: vizFrame_facts(9-12) dictRays_def)
  ultimately show ?thesis
    using held2 by (simp add: vizFrame_facts(1-12))
qed

section \<open>Setting a scene twice\<close>

text \<open>The concrete MyTestPass object, new and after one and two \<^verbatim>\<open>setScene\<close> calls.\<close>

lemma testBound_facts:
  "nextHandle (fst testNew) = 13"
  "MyTestPass.mpVars (snd testNew) = None"
  "map_option prog_id (MyTestPass.mpProgram (snd testNew)) = Some 10"
  "MyTestPass.mpScene (snd testBound0) = Some 0"
  "map_option vars_id (MyTestPass.mpVars (snd testBound0)) = Some 13"
  "map_option prog_id (MyTestPass.mpProgram (snd testBound0)) = Some 10"
  "MyTestPass.mpScene (snd testBound1) = Some 1"
  "map_option prog_id (MyTestPass.mpProgram (snd testBound1)) = Some 10"
  "map_option vars_id (MyTestPass.mpVars (snd testBound1)) = Some 14"
  "programDefine (MyTestPass.mpProgram (snd testBound1)) ''SCENE_GEOMETRY_TYPES'' = Some ''1''"
  "programDefine (MyTestPass.mpProgram (snd testBound1)) ''SCENE_HAS_CUSTOM'' = Some ''1''"
  by (simp_all add: testBound1_def testBound0_def testNew_def raster_eval programDefine_def
      scenes0_def scene0_def scene1_def)

text \<open>
  C5, as the claim states it, fails: after \<^verbatim>\<open>setScene\<close> with scene 0 and then with scene 1,
  MyTestPass still holds the program object that its constructor created (handle 10), and
  that program still carries a define of scene 0 which scene 1 does not set.
\<close>

theorem MyTestPass_setScene_twice_counterexample:
  "MyTestPass.mpScene (snd testBound0) = Some 0
   \<and> MyTestPass.mpScene (snd testBound1) = Some 1
   \<and> map_option prog_id (MyTestPass.mpProgram (snd testNew)) = Some 10
   \<and> map_option prog_id (MyTestPass.mpProgram (snd testBound0)) = Some 10
   \<and> map_option prog_id (MyTestPass.mpProgram (snd testBound1)) = Some 10
   \<and> getSceneDefines (scenes0 1) ''SCENE_GEOMETRY_TYPES'' = None
   \<and> programDefine (MyTestPass.mpProgram (snd testBound1)) ''SCENE_GEOMETRY_TYPES'' = Some ''1''"
  by (simp add: testBound_facts scenes0_def scene1_def scene0_def)

text \<open>
  A \<^verbatim>\<open>FocalGuiding::setScene\<close> call has the same outcome whether or not another
  \<^verbatim>\<open>setScene\<close> call went before it.
\<close>

lemma FocalGuiding_setScene_forgets:
  "FocalGuiding_setScene scn' pScene' (h', snd (FocalGuiding_setScene scn pScene (h, p))) =
   FocalGuiding_setScene scn' pScene' (h', p)"
  by (cases pScene; cases pScene') (simp_all add: FocalGuiding_setScene_unfold)

text \<open>A \<^verbatim>\<open>setScene\<close> of a raster pass that returned did so in this way.\<close>

lemma MyTestPass_setScene_Inr:
  assumes "MyTestPass_setScene scn pScene (h, p) = Inr (h', p')"
  shows "\<exists>g. MyTestPass.mpProgram p = Some g
     \<and> h' = h\<lparr>nextHandle := Suc (nextHandle h)\<rparr>
     \<and> p' = p\<lparr>MyTestPass.mpScene := pScene,
            MyTestPass.mpProgram :=
              Some (case pScene of None \<Rightarrow> g
                    | Some s \<Rightarrow> addDefines (getSceneDefines (scn s)) g),
            MyTestPass.mpVars :=
              Some \<lparr>vars_id = nextHandle h, vars_program = prog_id g,
                    vars_bindingTable = None, vars_values = Map.empty\<rparr>\<rparr>"
proof (cases "MyTestPass.mpProgram p")
  case None
  with assms show ?thesis
    by (simp add: MyTestPass_setScene_def)
next
  case (Some g)
  with assms MyTestPass_setScene_ok [OF Some, of scn pScene h] show ?thesis
    by simp
qed

lemma GuidedRayViz_setScene_Inr:
  assumes "GuidedRayViz_setScene scn pScene (h, p) = Inr (h', p')"
  shows "\<exists>g. GuidedRayViz.mpProgram p = Some g
     \<and> h' = h\<lparr>nextHandle := Suc (nextHandle h)\<rparr>
     \<and> p' = p\<lparr>GuidedRayViz.mpScene := pScene,
            GuidedRayViz.mpProgram :=
              Some (case pScene of None \<Rightarrow> g
                    | Some s \<Rightarrow> addDefines (getSceneDefines (scn s)) g),
            GuidedRayViz.mpVars :=
              Some \<lparr>vars_id = nextHandle h, vars_program = prog_id g,
                    vars_bindingTable = None, vars_values = Map.empty\<rparr>\<rparr>"
proof (cases "GuidedRayViz.mpProgram p")
  case None
  with assms show ?thesis
    by (simp add: GuidedRayViz_setScene_def)
next
  case (Some g)
  with assms GuidedRayViz_setScene_ok [OF Some, of scn pScene h] show ?thesis
    by simp
qed

text \<open>
  C5, amended: when \<^verbatim>\<open>setScene\<close> is called twice in a row with non-null scenes,
  FocalGuiding creates a new program and a new binding table in each call, the second program
  carrying the defines of the second scene only, and leaves the variables null after each
  call (they are rebuilt by the next \<^verbatim>\<open>execute\<close>); the second call has the same outcome as
  if the first had not happened. GuidedRayViz and MyTestPass create a new, empty
  program-variables object in each call, but keep the program object of the constructor,
  whose defines accumulate: those of the first scene stay unless the second scene sets them.
\<close>

theorem setScene_twice_rebuild:
  "(FocalGuiding_setScene scn (Some a) (h, p) = (h1, p1)
      \<and> FocalGuiding_setScene scn' (Some b) (h1', p1) = (h2, p2)
      \<and> nextHandle h1 \<le> nextHandle h1' \<longrightarrow>
      pVars (mTracer p1) = None \<and> pVars (mTracer p2) = None
      \<and> (\<exists>g1 g2. pProgram (mTracer p1) = Some g1 \<and> pProgram (mTracer p2) = Some g2
            \<and> prog_id g1 < prog_id g2 \<and> prog_defines g2 = getSceneDefines (scn' b))
      \<and> (\<exists>t1 t2. pBindingTable (mTracer p1) = Some t1 \<and> pBindingTable (mTracer p2) = Some t2
            \<and> sbt_id t1 < sbt_id t2)
      \<and> FocalGuiding_setScene scn' (Some b) (h1', p) = (h2, p2))
   \<and> (MyTestPass_setScene scn (Some a) (hm, pm) = Inr (hm1, pm1)
      \<and> MyTestPass_setScene scn' (Some b) (hm1', pm1) = Inr (hm2, pm2)
      \<and> nextHandle hm1 \<le> nextHandle hm1' \<longrightarrow>
      (\<exists>g0 g2 v1 v2. MyTestPass.mpProgram pm = Some g0 \<and> MyTestPass.mpProgram pm2 = Some g2
          \<and> prog_id g2 = prog_id g0
          \<and> prog_defines g2 = prog_defines g0 ++ getSceneDefines (scn a) ++ getSceneDefines (scn' b)
          \<and> MyTestPass.mpVars pm1 = Some v1 \<and> MyTestPass.mpVars pm2 = Some v2
          \<and> vars_id v1 < vars_id v2 \<and> vars_program v2 = prog_id g0
          \<and> vars_values v2 = Map.empty))
   \<and> (GuidedRayViz_setScene scn (Some a) (hv, pv) = Inr (hv1, pv1)
      \<and> GuidedRayViz_setScene scn' (Some b) (hv1', pv1) = Inr (hv2, pv2)
      \<and> nextHandle hv1 \<le> nextHandle hv1' \<longrightarrow>
      (\<exists>g0 g2 v1 v2. GuidedRayViz.mpProgram pv = Some g0 \<and> GuidedRayViz.mpProgram pv2 = Some g2
          \<and> prog_id g2 = prog_id g0
          \<and> prog_defines g2 = prog_defines g0 ++ getSceneDefines (scn a) ++ getSceneDefines (scn' b)
          \<and> GuidedRayViz.mpVars pv1 = Some v1 \<and> GuidedRayViz.mpVars pv2 = Some v2
          \<and> vars_id v1 < vars_id v2 \<and> vars_program v2 = prog_id g0
          \<and> vars_values v2 = Map.empty))"
proof (intro conjI impI)
  assume a: "FocalGuiding_setScene scn (Some a) (h, p) = (h1, p1)
      \<and> FocalGuiding_setScene scn' (Some b) (h1', p1) = (h2, p2)
      \<and> nextHandle h1 \<le> nextHandle h1'"
  note f1 = FocalGuiding_setScene_Some [of scn a h p]
  note f2 = FocalGuiding_setScene_Some [of scn' b h1' p1]
  from a f1(8) show "pVars (mTracer p1) = None" by simp
  from a f2(8) show "pVars (mTracer p2) = None" by simp
  from a f1(1,9) f2(9,10)
  show "\<exists>g1 g2. pProgram (mTracer p1) = Some g1 \<and> pProgram (mTracer p2) = Some g2
            \<and> prog_id g1 < prog_id g2 \<and> prog_defines g2 = getSceneDefines (scn' b)"
    by auto
  from a f1(1,11) f2(11)
  show "\<exists>t1 t2. pBindingTable (mTracer p1) = Some t1 \<and> pBindingTable (mTracer p2) = Some t2
            \<and> sbt_id t1 < sbt_id t2"
    by auto
  from a FocalGuiding_setScene_forgets [of scn' "Some b" h1' scn "Some a" h p]
  show "FocalGuiding_setScene scn' (Some b) (h1', p) = (h2, p2)"
    by simp
next
  assume a: "MyTestPass_setScene scn (Some a) (hm, pm) = Inr (hm1, pm1)
      \<and> MyTestPass_setScene scn' (Some b) (hm1', pm1) = Inr (hm2, pm2)
      \<and> nextHandle hm1 \<le> nextHandle hm1'"
  from a MyTestPass_setScene_Inr [of scn "Some a" hm pm hm1 pm1]
    MyTestPass_setScene_Inr [of scn' "Some b" hm1' pm1 hm2 pm2]
  show "\<exists>g0 g2 v1 v2. MyTestPass.mpProgram pm = Some g0 \<and> MyTestPass.mpProgram pm2 = Some g2
          \<and> prog_id g2 = prog_id g0
          \<and> prog_defines g2 = prog_defines g0 ++ getSceneDefines (scn a) ++ getSceneDefines (scn' b)
          \<and> MyTestPass.mpVars pm1 = Some v1 \<and> MyTestPass.mpVars pm2 = Some v2
          \<and> vars_id v1 < vars_id v2 \<and> vars_program v2 = prog_id g0
          \<and> vars_values v2 = Map.empty"
    by (auto simp: addDefines_def)
next
  assume a: "GuidedRayViz_setScene scn (Some a) (hv, pv) = Inr (hv1, pv1)
      \<and> GuidedRayViz_setScene scn' (Some b) (hv1', pv1) = Inr (hv2, pv2)
      \<and> nextHandle hv1 \<le> nextHandle hv1'"
  from a GuidedRayViz_setScene_Inr [of scn "Some a" hv pv hv1 pv1]
    GuidedRayViz_setScene_Inr [of scn' "Some b" hv1' pv1 hv2 pv2]
  show "\<exists>g0 g2 v1 v2. GuidedRayViz.mpProgram pv = Some g0 \<and> GuidedRayViz.mpProgram pv2 = Some g2
          \<and> prog_id g2 = prog_id g0
          \<and> prog_defines g2 = prog_defines g0 ++ getSceneDefines (scn a) ++ getSceneDefines (scn' b)
          \<and> GuidedRayViz.mpVars pv1 = Some v1 \<and> GuidedRayViz.mpVars pv2 = Some v2
          \<and> vars_id v1 < vars_id v2 \<and> vars_program v2 = prog_id g0
          \<and> vars_values v2 = Map.empty"
    by (auto simp: addDefines_def)
qed

text \<open>The \<^verbatim>\<open>setScene\<close> calls on the concrete raster passes return.\<close>

lemma Inr_resultState: "resultError r = None \<Longrightarrow> Inr (resultState r) = r"
  by (cases r) (auto simp: resultError_def resultState_def)

lemma raster_setScene_concrete:
  "MyTestPass_setScene scenes0 (Some 0) testNew = Inr testBound0"
  "MyTestPass_setScene scenes0 (Some 1) testBound0 = Inr testBound1"
  "GuidedRayViz_setScene scenes0 (Some 0) vizNew = Inr vizBound0"
  "GuidedRayViz_setScene scenes0 (Some 1) vizBound0 = Inr vizBound1"
proof -
  have "resultError (MyTestPass_setScene scenes0 (Some 0) testNew) = None"
    and "resultError (MyTestPass_setScene scenes0 (Some 1) testBound0) = None"
    and "resultError (GuidedRayViz_setScene scenes0 (Some 0) vizNew) = None"
    and "resultError (GuidedRayViz_setScene scenes0 (Some 1) vizBound0) = None"
    by (simp_all add: testBound0_def testNew_def vizBound0_def vizNew_def raster_eval
        resultError_def)
  then show "MyTestPass_setScene scenes0 (Some 0) testNew = Inr testBound0"
    and "MyTestPass_setScene scenes0 (Some 1) testBound0 = Inr testBound1"
    and "GuidedRayViz_setScene scenes0 (Some 0) vizNew = Inr vizBound0"
    and "GuidedRayViz_setScene scenes0 (Some 1) vizBound0 = Inr vizBound1"
    unfolding testBound1_def testBound0_def vizBound1_def vizBound0_def
    by (simp_all only: Inr_resultState)
qed

theorem setScene_twice_rebuild_witness:
  "FocalGuiding_setScene scenes0 (Some 0) fgNew = fgBound0
   \<and> pVars (mTracer (snd fgBound0)) = None
   \<and> pVars (mTracer (snd (FocalGuiding_setScene scenes0 (Some 1) fgBound0))) = None
   \<and> FocalGuiding_setScene scenes0 (Some 1) (fst fgBound0, snd fgNew) =
        FocalGuiding_setScene scenes0 (Some 1) fgBound0
   \<and> MyTestPass_setScene scenes0 (Some 0) testNew = Inr testBound0
   \<and> MyTestPass_setScene scenes0 (Some 1) testBound0 = Inr testBound1
   \<and> map_option prog_id (MyTestPass.mpProgram (snd testBound1)) =
        map_option prog_id (MyTestPass.mpProgram (snd testNew))
   \<and> MyTestPass.mpVars (snd testBound1) \<noteq> MyTestPass.mpVars (snd testBound0)
   \<and> GuidedRayViz_setScene scenes0 (Some 0) vizNew = Inr vizBound0
   \<and> GuidedRayViz_setScene scenes0 (Some 1) vizBound0 = Inr vizBound1
   \<and> map_option prog_id (GuidedRayViz.mpProgram (snd vizBound1)) =
        map_option prog_id (GuidedRayViz.mpProgram (snd vizNew))
   \<and> GuidedRayViz.mpVars (snd vizBound1) \<noteq> GuidedRayViz.mpVars (snd vizBound0)"
proof -
  have fg1: "FocalGuiding_setScene scenes0 (Some 0) (fst fgNew, snd fgNew) =
               (fst fgBound0, snd fgBound0)"
    by (simp add: fgBound0_def)
  have fg2: "FocalGuiding_setScene scenes0 (Some 1) (fst fgBound0, snd fgBound0) =
               (fst (FocalGuiding_setScene scenes0 (Some 1) fgBound0),
                snd (FocalGuiding_setScene scenes0 (Some 1) fgBound0))"
    by simp
  have t1: "MyTestPass_setScene scenes0 (Some 0) (fst testNew, snd testNew) =
              Inr (fst testBound0, snd testBound0)"
    and t2: "MyTestPass_setScene scenes0 (Some 1) (fst testBound0, snd testBound0) =
              Inr (fst testBound1, snd testBound1)"
    and v1: "GuidedRayViz_setScene scenes0 (Some 0) (fst vizNew, snd vizNew) =
              Inr (fst vizBound0, snd vizBound0)"
    and v2: "GuidedRayViz_setScene scenes0 (Some 1) (fst vizBound0, snd vizBound0) =
              Inr (fst vizBound1, snd vizBound1)"
    by (simp_all only: prod.collapse raster_setScene_concrete)
  note inst = setScene_twice_rebuild
         [where scn = scenes0 and scn' = scenes0 and a = 0 and b = 1
            and h = "fst fgNew" and p = "snd fgNew" and ?h1.0 = "fst fgBound0"
            and ?p1.0 = "snd fgBound0" and h1' = "fst fgBound0"
            and ?h2.0 = "fst (FocalGuiding_setScene scenes0 (Some 1) fgBound0)"
            and ?p2.0 = "snd (FocalGuiding_setScene scenes0 (Some 1) fgBound0)"
            and hm = "fst testNew" and pm = "snd testNew" and ?hm1.0 = "fst testBound0"
            and ?pm1.0 = "snd testBound0" and hm1' = "fst testBound0"
            and ?hm2.0 = "fst testBound1" and ?pm2.0 = "snd testBound1"
            and hv = "fst vizNew" and pv = "snd vizNew" and ?hv1.0 = "fst vizBound0"
            and ?pv1.0 = "snd vizBound0" and hv1' = "fst vizBound0"
            and ?hv2.0 = "fst vizBound1" and ?pv2.0 = "snd vizBound1"]
  from inst fg1 fg2
  have fg: "pVars (mTracer (snd fgBound0)) = None"
    "pVars (mTracer (snd (FocalGuiding_setScene scenes0 (Some 1) fgBound0))) = None"
    "FocalGuiding_setScene scenes0 (Some 1) (fst fgBound0, snd fgNew) =
        FocalGuiding_setScene scenes0 (Some 1) fgBound0"
    by simp_all
  from inst t1 t2
  have test: "map_option prog_id (MyTestPass.mpProgram (snd testBound1)) =
        map_option prog_id (MyTestPass.mpProgram (snd testNew))"
    "MyTestPass.mpVars (snd testBound1) \<noteq> MyTestPass.mpVars (snd testBound0)"
    by auto
  from inst v1 v2
  have viz: "map_option prog_id (GuidedRayViz.mpProgram (snd vizBound1)) =
        map_option prog_id (GuidedRayViz.mpProgram (snd vizNew))"
    "GuidedRayViz.mpVars (snd vizBound1) \<noteq> GuidedRayViz.mpVars (snd vizBound0)"
    by auto
  have "FocalGuiding_setScene scenes0 (Some 0) fgNew = fgBound0"
    by (simp add: fgBound0_def)
  with fg test viz raster_setScene_concrete show ?thesis
    by (intro conjI)
qed

section \<open>Where the program variables are created\<close>

text \<open>\<^verbatim>\<open>execute\<close> of a raster pass keeps the program-variables object it finds.\<close>

lemma generateRaysGeometry_pass:
  "snd (resultState (generateRaysGeometry (h, p))) = p"
  by (simp add: generateRaysGeometry_def resultState_def
      split: option.splits sum.splits prod.splits)

lemma GuidedRayViz_draw_vars:
  "map_option vars_id (GuidedRayViz.mpVars (snd (resultState (GuidedRayViz_draw rd (h, p))))) =
   map_option vars_id (GuidedRayViz.mpVars p)"
  by (simp add: GuidedRayViz_draw_def Fbo_create_def alloc_def resultState_def Let_def
      split: option.splits)

lemma MyTestPass_execute_vars:
  "map_option vars_id (MyTestPass.mpVars (snd (resultState (MyTestPass_execute rd (h, p))))) =
   map_option vars_id (MyTestPass.mpVars p)"
  by (simp add: MyTestPass_execute_def Fbo_create_def alloc_def resultState_def Let_def
      split: option.splits)

lemma GuidedRayViz_execute_vars:
  "map_option vars_id (GuidedRayViz.mpVars (snd (resultState (GuidedRayViz_execute rd (h, p))))) =
   map_option vars_id (GuidedRayViz.mpVars p)"
proof (cases "GuidedRayViz.mpScene p")
  case None
  then show ?thesis
    by (simp add: GuidedRayViz_execute_def resultState_def)
next
  case scene: (Some s)
  show ?thesis
  proof (cases "dictUint h ''gGuidedRaysSize''")
    case (Inl e)
    with scene show ?thesis
      by (simp add: GuidedRayViz_execute_def resultState_def)
  next
    case size: (Inr n)
    show ?thesis
    proof (cases "dictBuffer h ''gGuidedRays''")
      case (Inl e)
      with scene size show ?thesis
        by (simp add: GuidedRayViz_execute_def resultState_def)
    next
      case rays: (Inr b)
      show ?thesis
      proof (cases "dictBool h ''gComputeRays''")
        case (Inl e)
        with scene size rays show ?thesis
          by (simp add: GuidedRayViz_execute_def resultState_def)
      next
        case flag: (Inr c)
        let ?p3 = "p\<lparr>GuidedRayViz.mGuidedRaysSize := n, GuidedRayViz.mGuidedRays := b,
                     GuidedRayViz.mComputeRays := c\<rparr>"
        let ?r = "if c \<and> b \<noteq> None then generateRaysGeometry (h, ?p3) else Inr (h, ?p3)"
        have exec: "GuidedRayViz_execute rd (h, p) =
            (case ?r of Inl e \<Rightarrow> Inl e | Inr hp4 \<Rightarrow> GuidedRayViz_draw rd hp4)"
          using scene size rays flag by (simp add: GuidedRayViz_execute_def Let_def)
        have pass: "snd (resultState ?r) = ?p3"
        proof (cases "c \<and> b \<noteq> None")
          case True
          then show ?thesis
            by (simp add: generateRaysGeometry_pass)
        next
          case False
          then show ?thesis
            by (auto simp: resultState_def)
        qed
        show ?thesis
        proof (cases ?r)
          case (Inl e)
          with pass have "snd (snd e) = ?p3"
            by (cases e) (simp add: resultState_def)
          with exec Inl show ?thesis
            by (cases e) (simp add: resultState_def)
        next
          case (Inr hp4)
          with pass have "hp4 = (fst hp4, ?p3)"
            by (cases hp4) (simp add: resultState_def)
          with GuidedRayViz_draw_vars [of rd "fst hp4" ?p3]
          have "map_option vars_id
                  (GuidedRayViz.mpVars (snd (resultState (GuidedRayViz_draw rd hp4)))) =
                map_option vars_id (GuidedRayViz.mpVars p)"
            by simp
          with exec Inr show ?thesis
            by simp
        qed
      qed
    qed
  qed
qed

text \<open>
  C8, as the claim states it, fails: a new MyTestPass has no program variables, and its first
  \<^verbatim>\<open>setScene\<close> call creates them (with the handle allocated during that call), before any
  \<^verbatim>\<open>execute\<close>.
\<close>

theorem MyTestPass_setScene_creates_vars_counterexample:
  "MyTestPass.mpVars (snd testNew) = None
   \<and> nextHandle (fst testNew) = 13
   \<and> testBound0 = resultState (MyTestPass_setScene scenes0 (Some 0) testNew)
   \<and> map_option vars_id (MyTestPass.mpVars (snd testBound0)) = Some 13"
  using testBound_facts(1,2,5) by (simp only: testBound0_def simp_thms)

text \<open>
  C8, amended: FocalGuiding never creates its program variables in \<^verbatim>\<open>setScene\<close>, which
  leaves them null; an \<^verbatim>\<open>execute\<close> call with a scene and no geometry change creates them
  if they are null (the object allocated at the start of that call) and keeps the existing
  object otherwise. GuidedRayViz and MyTestPass create their program variables inside every
  \<^verbatim>\<open>setScene\<close> call that returns, with a null scene too, and \<^verbatim>\<open>execute\<close> never creates
  them: it keeps the object it finds, or finds none.
\<close>

theorem programVars_creation:
  "pVars (mTracer (snd (FocalGuiding_setScene scn pScene (h, p)))) = None
   \<and> (FocalGuiding_inv p \<and> FocalGuiding.mpScene p = Some s
        \<and> \<not> is_set (getUpdates (scn s)) GeometryChanged \<longrightarrow>
        map_option vars_id
          (pVars (mTracer (snd (resultState (FocalGuiding_execute scn rd (h, p)))))) =
        Some (case pVars (mTracer p) of None \<Rightarrow> nextHandle h | Some v0 \<Rightarrow> vars_id v0))
   \<and> (MyTestPass_setScene scn pScene (hm, pm) = Inr (hm', pm') \<longrightarrow>
        map_option vars_id (MyTestPass.mpVars pm') = Some (nextHandle hm))
   \<and> map_option vars_id
        (MyTestPass.mpVars (snd (resultState (MyTestPass_execute rd (hm, pm))))) =
      map_option vars_id (MyTestPass.mpVars pm)
   \<and> (GuidedRayViz_setScene scn pScene (hv, pv) = Inr (hv', pv') \<longrightarrow>
        map_option vars_id (GuidedRayViz.mpVars pv') = Some (nextHandle hv))
   \<and> map_option vars_id
        (GuidedRayViz.mpVars (snd (resultState (GuidedRayViz_execute rd (hv, pv))))) =
      map_option vars_id (GuidedRayViz.mpVars pv)"
proof (intro conjI impI)
  show "pVars (mTracer (snd (FocalGuiding_setScene scn pScene (h, p)))) = None"
    by (cases pScene) (simp_all add: FocalGuiding_setScene_None FocalGuiding_setScene_Some(8))
next
  assume a: "FocalGuiding_inv p \<and> FocalGuiding.mpScene p = Some s
        \<and> \<not> is_set (getUpdates (scn s)) GeometryChanged"
  show "map_option vars_id
          (pVars (mTracer (snd (resultState (FocalGuiding_execute scn rd (h, p)))))) =
        Some (case pVars (mTracer p) of None \<Rightarrow> nextHandle h | Some v0 \<Rightarrow> vars_id v0)"
  proof (cases "assertFails h (fst (getDefaultTextureDims rd) > 0
                     \<and> snd (getDefaultTextureDims rd) > 0)")
    case True
    with a FocalGuiding_execute_dims_assert
             [where p = p and s = s and scn = scn and h = h and rd = rd]
    show ?thesis
      by (auto simp: resultState_def)
  next
    case False
    with a FocalGuiding_execute_success
             [where p = p and s = s and scn = scn and h = h and rd = rd]
    show ?thesis
      by (auto simp: resultState_def)
  qed
next
  assume "MyTestPass_setScene scn pScene (hm, pm) = Inr (hm', pm')"
  from MyTestPass_setScene_Inr [OF this]
  show "map_option vars_id (MyTestPass.mpVars pm') = Some (nextHandle hm)"
    by auto
next
  show "map_option vars_id
        (MyTestPass.mpVars (snd (resultState (MyTestPass_execute rd (hm, pm))))) =
      map_option vars_id (MyTestPass.mpVars pm)"
    by (rule MyTestPass_execute_vars)
next
  assume "GuidedRayViz_setScene scn pScene (hv, pv) = Inr (hv', pv')"
  from GuidedRayViz_setScene_Inr [OF this]
  show "map_option vars_id (GuidedRayViz.mpVars pv') = Some (nextHandle hv)"
    by auto
next
  show "map_option vars_id
        (GuidedRayViz.mpVars (snd (resultState (GuidedRayViz_execute rd (hv, pv))))) =
      map_option vars_id (GuidedRayViz.mpVars pv)"
    by (rule GuidedRayViz_execute_vars)
qed

theorem programVars_creation_witness:
  "pVars (mTracer (snd fgBound0)) = None
   \<and> FocalGuiding_inv (snd fgBound0) \<and> FocalGuiding.mpScene (snd fgBound0) = Some 0
   \<and> \<not> is_set (getUpdates (scenes0 0)) GeometryChanged
   \<and> nextHandle (fst fgBound0) = 12
   \<and> map_option vars_id (pVars (mTracer (snd fgRan0))) = Some 12
   \<and> map_option vars_id
        (pVars (mTracer (snd (resultState (FocalGuiding_execute scenes0 frame0 fgRan0))))) =
      Some 12
   \<and> MyTestPass_setScene scenes0 (Some 0) testNew = Inr testBound0
   \<and> nextHandle (fst testNew) = 13
   \<and> map_option vars_id (MyTestPass.mpVars (snd testBound0)) = Some 13
   \<and> map_option vars_id
        (MyTestPass.mpVars (snd (resultState (MyTestPass_execute frame0 testBound0)))) = Some 13
   \<and> GuidedRayViz_setScene scenes0 (Some 0) vizNew = Inr vizBound0
   \<and> map_option vars_id (GuidedRayViz.mpVars (snd vizBound0)) = Some (nextHandle (fst vizNew))"
proof -
  have geom: "\<not> is_set (getUpdates (scenes0 0)) GeometryChanged"
    by (simp add: is_set_def scenes0_def scene0_def)
  have pre0: "FocalGuiding_inv (snd fgBound0) \<and> FocalGuiding.mpScene (snd fgBound0) = Some 0
        \<and> \<not> is_set (getUpdates (scenes0 0)) GeometryChanged"
    and pre1: "FocalGuiding_inv (snd fgRan0) \<and> FocalGuiding.mpScene (snd fgRan0) = Some 0
        \<and> \<not> is_set (getUpdates (scenes0 0)) GeometryChanged"
    using geom by (simp_all add: fgBound0_facts fgRan0_facts)
  note first = programVars_creation
         [where scn = scenes0 and s = 0 and h = "fst fgBound0" and p = "snd fgBound0"
            and rd = frame0 and pScene = "Some 0"
            and hm = "fst testNew" and pm = "snd testNew"
            and hm' = "fst testBound0" and pm' = "snd testBound0"
            and hv = "fst vizNew" and pv = "snd vizNew"
            and hv' = "fst vizBound0" and pv' = "snd vizBound0"]
  note later = programVars_creation
         [where scn = scenes0 and s = 0 and h = "fst fgRan0" and p = "snd fgRan0"
            and rd = frame0 and hm = "fst testBound0" and pm = "snd testBound0"]
  from first pre0 have ran: "map_option vars_id (pVars (mTracer (snd fgRan0))) = Some 12"
    by (simp add: fgRan0_def fgBound0_facts)
  with later pre1 have again: "map_option vars_id
        (pVars (mTracer (snd (resultState (FocalGuiding_execute scenes0 frame0 fgRan0))))) =
      Some 12"
    by auto
  from first have test: "map_option vars_id (MyTestPass.mpVars (snd testBound0)) = Some 13"
    and viz: "map_option vars_id (GuidedRayViz.mpVars (snd vizBound0)) =
               Some (nextHandle (fst vizNew))"
    by (simp_all add: raster_setScene_concrete testBound_facts)
  from later test have keep: "map_option vars_id
        (MyTestPass.mpVars (snd (resultState (MyTestPass_execute frame0 testBound0)))) = Some 13"
    by simp
  from ran again test viz keep pre0 show ?thesis
    by (simp add: fgBound0_facts raster_setScene_concrete testBound_facts)
qed

end
